theory Spec2Isabelle
  imports Main "HOL-Library.Sublist"
begin

section \<open>Strings, paths and JSON values\<close>

text \<open>
  The service is one Express application, \<^verbatim>\<open>src/index.ts\<close>. The development below embeds
  the video route \<^verbatim>\<open>POST /convert-video\<close> and the delivery route
  \<^verbatim>\<open>GET /download-video/:filename\<close>.

  JavaScript strings are modelled as \<^typ>\<open>string\<close> (lists of 8-bit characters) and a
  \<^verbatim>\<open>Buffer\<close> as the list of its bytes. Calls to \<^verbatim>\<open>console.log\<close> and
  \<^verbatim>\<open>console.error\<close> have no effect on any value below and are left out.
\<close>

type_synonym bytes = "char list"

text \<open>
  \<^verbatim>\<open>String.prototype.toLowerCase\<close> on the ASCII letters; every other character is
  kept as it is.
\<close>

definition lower_char :: "char \<Rightarrow> char" where
  "lower_char c =
     (case map_of (zip ''ABCDEFGHIJKLMNOPQRSTUVWXYZ'' ''abcdefghijklmnopqrstuvwxyz'') c of
        Some d \<Rightarrow> d
      | None \<Rightarrow> c)"

definition toLowerCase :: "string \<Rightarrow> string" where
  "toLowerCase s = map lower_char s"

text \<open>
  Node's POSIX \<^verbatim>\<open>path.basename\<close> and \<^verbatim>\<open>path.extname\<close>.
  The last component of a path is what follows its last slash, trailing slashes
  set aside. The extension runs from the last dot of that component to its end; it
  is empty when the component has no dot, when its only dot is its first character,
  and when the component is \<^verbatim>\<open>..\<close>.
\<close>

definition last_component :: "string \<Rightarrow> string" where
  "last_component p =
     rev (takeWhile (\<lambda>c. c \<noteq> CHR ''/'') (dropWhile (\<lambda>c. c = CHR ''/'') (rev p)))"

definition basename :: "string \<Rightarrow> string" where
  "basename p = last_component p"

definition extname :: "string \<Rightarrow> string" where
  "extname p =
     (let comp = last_component p;
          ext = rev (takeWhile (\<lambda>c. c \<noteq> CHR ''.'') (rev comp));
          stem = take (length comp - length ext - 1) comp
      in if CHR ''.'' \<notin> set comp then []
         else if stem = [] then []
         else if comp = ''..'' then []
         else CHR ''.'' # ext)"

text \<open>
  Node's POSIX \<^verbatim>\<open>path.join\<close> and the \<^verbatim>\<open>path.normalize\<close> it ends with. The
  arguments that are not empty are put together with a slash between them, and the
  result is normalised segment by segment, from left to right: an empty segment (a
  repeated slash) and the segment \<^verbatim>\<open>.\<close> are dropped; the segment \<^verbatim>\<open>..\<close> takes
  away the segment kept last, unless none is kept or the last one is itself
  \<^verbatim>\<open>..\<close>, and then it is kept on a relative path and dropped on an absolute one,
  which never leaves the root. A leading slash and a trailing slash are put back.
\<close>

fun segments :: "string \<Rightarrow> string list" where
  "segments [] = [[]]"
| "segments (c # cs) =
     (if c = CHR ''/'' then [] # segments cs
      else (case segments cs of [] \<Rightarrow> [[c]] | seg # segs \<Rightarrow> (c # seg) # segs))"

fun normalizeString :: "bool \<Rightarrow> string list \<Rightarrow> string list \<Rightarrow> string list" where
  "normalizeString allowAboveRoot res [] = res"
| "normalizeString allowAboveRoot res (seg # segs) =
     normalizeString allowAboveRoot
       (if seg = [] \<or> seg = ''.'' then res
        else if seg = ''..'' then
          (if res \<noteq> [] \<and> last res \<noteq> ''..'' then butlast res
           else if allowAboveRoot then res @ [''..'']
           else res)
        else res @ [seg])
       segs"

fun join_slash :: "string list \<Rightarrow> string" where
  "join_slash [] = []"
| "join_slash [s] = s"
| "join_slash (s # t # ss) = s @ ''/'' @ join_slash (t # ss)"

definition normalize :: "string \<Rightarrow> string" where
  "normalize p =
     (if p = [] then ''.''
      else
        (let isAbsolute = (hd p = CHR ''/'');
             trailingSeparator = (last p = CHR ''/'');
             res = join_slash (normalizeString (\<not> isAbsolute) [] (segments p))
         in if res = [] then (if isAbsolute then ''/'' else if trailingSeparator then ''./'' else ''.'')
            else (if isAbsolute then ''/'' else []) @ res @ (if trailingSeparator then ''/'' else [])))"

definition path_join :: "string \<Rightarrow> string \<Rightarrow> string" where
  "path_join dir name =
     (let joined = (if dir = [] then name else if name = [] then dir else dir @ ''/'' @ name)
      in if joined = [] then ''.'' else normalize joined)"

datatype json =
    JString string
  | JNumber nat
  | JBool bool
  | JArray "json list"
  | JObject "(string \<times> json) list"

text \<open>The keys of an object literal, in the order they are written.\<close>

fun keys :: "json \<Rightarrow> string list" where
  "keys (JObject kvs) = map fst kvs"
| "keys _ = []"

fun field :: "json \<Rightarrow> string \<Rightarrow> json option" where
  "field (JObject kvs) k = map_of kvs k"
| "field _ k = None"

section \<open>Requests, responses and the outside world\<close>

text \<open>A file as multer's memory storage hands it over.\<close>

record uploaded_file =
  originalname :: string
  mimetype :: string
  buffer :: bytes

text \<open>
  What the handler of \<^verbatim>\<open>POST /convert-video\<close> reads of the request:
  \<^verbatim>\<open>req.files\<close> and \<^verbatim>\<open>req.body.format\<close> (either may be undefined),
  \<^verbatim>\<open>req.protocol\<close> and \<^verbatim>\<open>req.get("host")\<close>.
\<close>

record convert_request =
  files :: "uploaded_file list option"
  format :: "string option"
  protocol :: string
  host :: "string option"

datatype body = Json json | Text string | File bytes

record response =
  status :: nat
  headers :: "(string \<times> string) list"
  body :: body

text \<open>
  A handler either sends a response or throws. Both routes are wrapped in
  \<^verbatim>\<open>asyncHandler\<close>, which forwards a thrown error to Express; no handler of the
  application answers it.
\<close>

datatype outcome = Responded response | Rejected string

text \<open>
  The calls a conversion job makes to the outside, and the world they act on: the
  files on disk by path, and the calls made so far, each with the index of the job
  (the position of its file in the batch) that made it.
\<close>

datatype call =
    WriteFile string bytes
  | Spawn string "string list"
  | Stat string
  | Unlink string

record world =
  disk :: "string \<Rightarrow> bytes option"
  calls :: "(nat \<times> call) list"

text \<open>
  What the outside answers to one job. \<^verbatim>\<open>uuidv4()\<close> returns \<open>uuid\<close>.
  \<^verbatim>\<open>fs.writeFile\<close> succeeds or rejects with a message, leaving nothing or a
  partial file behind. The encoder either cannot be started (the \<^verbatim>\<open>error\<close> event,
  with a message) or closes with an exit code (none when a signal ended it), the text it
  wrote to stderr and the output file it wrote, if any. \<^verbatim>\<open>fs.stat\<close> and
  \<^verbatim>\<open>fs.unlink\<close> reject when the path names no file, and when a fault is given
  here.
\<close>

datatype write_outcome = WriteOk | WriteFailed string "bytes option"

datatype proc_outcome = SpawnError string | Closed "int option" string "bytes option"

record job_env =
  uuid :: string
  on_write :: write_outcome
  on_ffmpeg :: proc_outcome
  stat_fault :: "string option"
  unlink_fault :: "string option"

text \<open>The message Node gives the error of a call on a path that names no file.\<close>

definition enoent :: "string \<Rightarrow> string \<Rightarrow> string" where
  "enoent syscall p =
     ''ENOENT: no such file or directory, '' @ syscall @ '' '' @ [CHR 0x27] @ p @ [CHR 0x27]"

definition fs_stat :: "(string \<Rightarrow> bytes option) \<Rightarrow> string option \<Rightarrow> string \<Rightarrow> string + nat" where
  "fs_stat d fault p =
     (case fault of
        Some msg \<Rightarrow> Inl msg
      | None \<Rightarrow> (case d p of None \<Rightarrow> Inl (enoent ''stat'' p) | Some b \<Rightarrow> Inr (length b)))"

definition fs_unlink ::
  "(string \<Rightarrow> bytes option) \<Rightarrow> string option \<Rightarrow> string \<Rightarrow> (string + unit) \<times> (string \<Rightarrow> bytes option)" where
  "fs_unlink d fault p =
     (case d p of
        None \<Rightarrow> (Inl (enoent ''unlink'' p), d)
      | Some b \<Rightarrow> (case fault of Some msg \<Rightarrow> (Inl msg, d) | None \<Rightarrow> (Inr (), d(p := None))))"

section \<open>The video route\<close>

definition allowedVideoFormats :: "string \<Rightarrow> string option" where
  "allowedVideoFormats = map_of [(''mp4'', ''video/mp4''), (''webm'', ''video/webm'')]"

text \<open>
  The handler up to \<^verbatim>\<open>Promise.all\<close>: it answers 400 when no file was uploaded;
  it then calls \<^verbatim>\<open>toLowerCase\<close> on \<^verbatim>\<open>req.body.format\<close>, which throws a
  TypeError when the field is undefined, and only afterwards tests the format and the
  MIME type looked up for it. \<open>Inr\<close> carries the files, the format as sent and its MIME
  type on to the jobs.
\<close>

definition validate :: "convert_request \<Rightarrow> outcome + (uploaded_file list \<times> string \<times> string)" where
  "validate req =
     (case files req of
        None \<Rightarrow> Inl (Responded \<lparr>status = 400, headers = [],
                   body = Json (JObject [(''error'', JString ''No video files uploaded.'')])\<rparr>)
      | Some fs \<Rightarrow>
          if fs = [] then
            Inl (Responded \<lparr>status = 400, headers = [],
                   body = Json (JObject [(''error'', JString ''No video files uploaded.'')])\<rparr>)
          else
            (case format req of
               None \<Rightarrow>
                 Inl (Rejected (''TypeError: Cannot read properties of undefined (reading '' @
                        [CHR 0x27] @ ''toLowerCase'' @ [CHR 0x27] @ '')''))
             | Some targetFormat \<Rightarrow>
                 (case allowedVideoFormats (toLowerCase targetFormat) of
                    None \<Rightarrow>
                      Inl (Responded \<lparr>status = 400, headers = [],
                             body = Json (JObject [(''error'', JString
                               ''Invalid or missing target video format. Supported formats: mp4, webm.'')])\<rparr>)
                  | Some targetMimeType \<Rightarrow>
                      if targetFormat = [] \<or> targetMimeType = [] then
                        Inl (Responded \<lparr>status = 400, headers = [],
                               body = Json (JObject [(''error'', JString
                                 ''Invalid or missing target video format. Supported formats: mp4, webm.'')])\<rparr>)
                      else Inr (fs, targetFormat, targetMimeType))))"

text \<open>
  The argument list of the encoder. The codec is chosen by comparing the format as it
  was sent, not its lower-case form, with \<^verbatim>\<open>webm\<close>.
\<close>

definition ffmpegArgs :: "string \<Rightarrow> string \<Rightarrow> string \<Rightarrow> string list" where
  "ffmpegArgs targetFormat inputFilePath outputFilePath =
     [''-i'', inputFilePath,
      ''-c:v'', (if targetFormat = ''webm'' then ''libvpx'' else ''libx264''),
      ''-preset'', ''veryfast'',
      ''-crf'', ''28'',
      ''-threads'', ''0'',
      ''-y'', outputFilePath]"

text \<open>
  The two object literals a job returns. \<^verbatim>\<open>req.get("host")\<close> is undefined when the
  request has no Host header, and the template literal then prints \<^verbatim>\<open>undefined\<close>.
\<close>

definition downloadUrl :: "convert_request \<Rightarrow> string \<Rightarrow> string" where
  "downloadUrl req outputFilePath =
     protocol req @ ''://'' @ (case host req of None \<Rightarrow> ''undefined'' | Some h \<Rightarrow> h)
       @ ''/download-video/'' @ basename outputFilePath"

definition success_result :: "convert_request \<Rightarrow> uploaded_file \<Rightarrow> string \<Rightarrow> string \<Rightarrow> nat \<Rightarrow> json" where
  "success_result req file outputFilePath targetMimeType convertedFileSize =
     JObject [(''originalName'', JString (originalname file)),
              (''newName'', JString (basename outputFilePath)),
              (''mimeType'', JString targetMimeType),
              (''downloadUrl'', JString (downloadUrl req outputFilePath)),
              (''size'', JNumber convertedFileSize)]"

definition failure_result :: "uploaded_file \<Rightarrow> string \<Rightarrow> json" where
  "failure_result file message =
     JObject [(''originalName'', JString (originalname file)),
              (''newName'', JString (originalname file @ ''.error'')),
              (''mimeType'', JString ''application/octet-stream''),
              (''downloadUrl'', JString ''#''),
              (''error'', JString (''Failed to convert: '' @
                 (if message = [] then ''Unknown error'' else message)))]"

subsection \<open>One job\<close>

text \<open>
  The async function mapped over the files is a state machine: it runs until it awaits
  something of the outside and resumes when that completes. A job holds the two path
  variables of the function and the point where it waits: for \<^verbatim>\<open>fs.writeFile\<close>,
  for the encoder's \<^verbatim>\<open>close\<close> or \<^verbatim>\<open>error\<close> event, for \<^verbatim>\<open>fs.stat\<close>, or, in the
  \<^verbatim>\<open>finally\<close> block, for \<^verbatim>\<open>fs.unlink\<close> with the value the function is about to
  return; a settled job has returned it.
\<close>

datatype wait = AwaitWrite | AwaitClose | AwaitStat | AwaitUnlink json | Settled json

record job =
  inputFilePath :: string
  outputFilePath :: string
  wait :: wait

text \<open>
  The function up to its first \<^verbatim>\<open>await\<close>: it names the two files after a fresh UUID
  and calls \<^verbatim>\<open>fs.writeFile\<close>. Both path variables are assigned before anything can
  throw, so they are never undefined afterwards.
\<close>

definition start_job :: "string \<Rightarrow> nat \<Rightarrow> uploaded_file \<Rightarrow> job_env \<Rightarrow> world \<Rightarrow> job \<times> world" where
  "start_job targetFormat i file e w =
     (let uniqueId = uuid e;
          inputFileName = uniqueId @ ''_input'' @ extname (originalname file);
          outputFileName = uniqueId @ ''_output.'' @ toLowerCase targetFormat;
          inp = path_join ''/tmp'' inputFileName;
          outp = path_join ''/tmp'' outputFileName
      in (\<lparr>inputFilePath = inp, outputFilePath = outp, wait = AwaitWrite\<rparr>,
          w\<lparr>calls := calls w @ [(i, WriteFile inp (buffer file))]\<rparr>))"

text \<open>
  The \<^verbatim>\<open>finally\<close> block: when the input path is set (a non-empty string), it calls
  \<^verbatim>\<open>fs.unlink\<close> on it and waits; the output path is left alone. The \<^verbatim>\<open>catch\<close> block
  turns the error caught into the failure object and falls into \<^verbatim>\<open>finally\<close>.
\<close>

definition finally_block :: "nat \<Rightarrow> job \<Rightarrow> json \<Rightarrow> world \<Rightarrow> job \<times> world" where
  "finally_block i j result w =
     (if inputFilePath j \<noteq> [] then
        (j\<lparr>wait := AwaitUnlink result\<rparr>, w\<lparr>calls := calls w @ [(i, Unlink (inputFilePath j))]\<rparr>)
      else (j\<lparr>wait := Settled result\<rparr>, w))"

definition catch_block :: "nat \<Rightarrow> uploaded_file \<Rightarrow> job \<Rightarrow> string \<Rightarrow> world \<Rightarrow> job \<times> world" where
  "catch_block i file j message w = finally_block i j (failure_result file message) w"

definition put_file :: "string \<Rightarrow> bytes option \<Rightarrow> world \<Rightarrow> world" where
  "put_file p content w =
     (case content of None \<Rightarrow> w | Some b \<Rightarrow> w\<lparr>disk := (disk w)(p \<mapsto> b)\<rparr>)"

text \<open>
  One resumption of job \<open>i\<close>: what it was waiting for completes, with its effect on the
  disk, and the function runs on to its next \<^verbatim>\<open>await\<close> or to its return.
\<close>

definition job_step ::
  "convert_request \<Rightarrow> string \<Rightarrow> string \<Rightarrow> nat \<Rightarrow> uploaded_file \<Rightarrow> job_env \<Rightarrow> job \<Rightarrow> world \<Rightarrow> job \<times> world" where
  "job_step req targetFormat targetMimeType i file e j w =
     (case wait j of
        AwaitWrite \<Rightarrow>
          (case on_write e of
             WriteFailed message partial \<Rightarrow>
               catch_block i file j message (put_file (inputFilePath j) partial w)
           | WriteOk \<Rightarrow>
               (j\<lparr>wait := AwaitClose\<rparr>,
                w\<lparr>disk := (disk w)(inputFilePath j \<mapsto> buffer file),
                  calls := calls w @
                    [(i, Spawn ''ffmpeg'' (ffmpegArgs targetFormat (inputFilePath j) (outputFilePath j)))]\<rparr>))
      | AwaitClose \<Rightarrow>
          (case on_ffmpeg e of
             SpawnError message \<Rightarrow> catch_block i file j (''Failed to start FFmpeg: '' @ message) w
           | Closed code ffmpegErrorOutput written \<Rightarrow>
               (let w' = put_file (outputFilePath j) written w in
                if code = Some 0 then
                  (j\<lparr>wait := AwaitStat\<rparr>, w'\<lparr>calls := calls w' @ [(i, Stat (outputFilePath j))]\<rparr>)
                else
                  catch_block i file j
                    (''FFmpeg conversion failed: '' @
                       (if ffmpegErrorOutput = [] then ''Unknown FFmpeg error'' else ffmpegErrorOutput))
                    w'))
      | AwaitStat \<Rightarrow>
          (case fs_stat (disk w) (stat_fault e) (outputFilePath j) of
             Inl message \<Rightarrow> catch_block i file j message w
           | Inr convertedFileSize \<Rightarrow>
               finally_block i j
                 (success_result req file (outputFilePath j) targetMimeType convertedFileSize) w)
      | AwaitUnlink result \<Rightarrow>
          (j\<lparr>wait := Settled result\<rparr>,
           w\<lparr>disk := snd (fs_unlink (disk w) (unlink_fault e) (inputFilePath j))\<rparr>)
      | Settled result \<Rightarrow> (j, w))"

subsection \<open>The batch\<close>

text \<open>
  \<^verbatim>\<open>files.map\<close> starts the jobs in the order of the files; job \<open>i\<close> is answered by
  \<open>envs i\<close>.
\<close>

fun start_jobs ::
  "string \<Rightarrow> (nat \<Rightarrow> job_env) \<Rightarrow> nat \<Rightarrow> uploaded_file list \<Rightarrow> world \<Rightarrow> job list \<times> world" where
  "start_jobs targetFormat envs i [] w = ([], w)"
| "start_jobs targetFormat envs i (file # rest) w =
     (let (j, w1) = start_job targetFormat i file (envs i) w;
          (js, w2) = start_jobs targetFormat envs (Suc i) rest w1
      in (j # js, w2))"

text \<open>
  The jobs then run interleaved. A schedule lists, in the order the event loop delivers
  them, the jobs whose awaited operation completes; an index past the batch, or of a job
  that has settled, delivers nothing. No timeout is set on the encoder: a job whose
  encoder never exits is a job the schedule stops resuming.
\<close>

fun run_schedule ::
  "convert_request \<Rightarrow> string \<Rightarrow> string \<Rightarrow> uploaded_file list \<Rightarrow> (nat \<Rightarrow> job_env) \<Rightarrow>
   nat list \<Rightarrow> job list \<times> world \<Rightarrow> job list \<times> world" where
  "run_schedule req targetFormat targetMimeType fs envs [] s = s"
| "run_schedule req targetFormat targetMimeType fs envs (i # sched) (js, w) =
     (if i < length js \<and> i < length fs then
        (let (j', w') = job_step req targetFormat targetMimeType i (fs ! i) (envs i) (js ! i) w
         in run_schedule req targetFormat targetMimeType fs envs sched (js[i := j'], w'))
      else run_schedule req targetFormat targetMimeType fs envs sched (js, w))"

fun settled :: "job \<Rightarrow> json option" where
  "settled j = (case wait j of Settled result \<Rightarrow> Some result | _ \<Rightarrow> None)"

text \<open>
  \<^verbatim>\<open>Promise.all\<close> resolves once every job has settled, with their values in the order
  of the jobs; until then the handler has sent nothing.
\<close>

definition promise_all :: "job list \<Rightarrow> json list option" where
  "promise_all js = those (map settled js)"

text \<open>The body sent by \<^verbatim>\<open>res.json\<close> once every job has settled, with the default status.\<close>

definition batch_response :: "json list \<Rightarrow> response" where
  "batch_response convertedResults =
     \<lparr>status = 200, headers = [],
      body = Json (JObject
        [(''success'', JBool True),
         (''message'', JString
            ''Video conversion completed. Download links point to temporary server files.''),
         (''convertedFiles'', JArray convertedResults)])\<rparr>"

definition convert_video ::
  "convert_request \<Rightarrow> (nat \<Rightarrow> job_env) \<Rightarrow> nat list \<Rightarrow> world \<Rightarrow> (outcome \<times> world) option" where
  "convert_video req envs sched w =
     (case validate req of
        Inl out \<Rightarrow> Some (out, w)
      | Inr (fs, targetFormat, targetMimeType) \<Rightarrow>
          (let (js, w') = run_schedule req targetFormat targetMimeType fs envs sched
                            (start_jobs targetFormat envs 0 fs w)
           in case promise_all js of
                None \<Rightarrow> None
              | Some convertedResults \<Rightarrow> Some (Responded (batch_response convertedResults), w')))"

text \<open>
  \<^verbatim>\<open>uuidv4()\<close> returns 36 characters, hexadecimal digits and dashes, and does not
  return the same identifier twice.
\<close>

definition is_uuid :: "string \<Rightarrow> bool" where
  "is_uuid u = (length u = 36 \<and> list_all (\<lambda>c. c \<in> set ''0123456789abcdef-'') u)"

definition fresh_uuids :: "(nat \<Rightarrow> job_env) \<Rightarrow> nat \<Rightarrow> bool" where
  "fresh_uuids envs n =
     (list_all (\<lambda>i. is_uuid (uuid (envs i))) [0..<n] \<and> distinct (map (\<lambda>i. uuid (envs i)) [0..<n]))"

text \<open>The calls job \<open>i\<close> has made, in order.\<close>

definition calls_of :: "nat \<Rightarrow> world \<Rightarrow> call list" where
  "calls_of i w = map snd (filter (\<lambda>c. fst c = i) (calls w))"

fun is_unlink :: "call \<Rightarrow> bool" where
  "is_unlink (Unlink p) = True"
| "is_unlink _ = False"

section \<open>The delivery route\<close>

text \<open>
  What the outside answers to one download: the paths that name a directory, a fault of
  \<^verbatim>\<open>fs.access\<close>, if any, and how the transfer started by \<^verbatim>\<open>res.download\<close> ends:
  the whole file is sent, or it fails before the headers are sent, or it fails after
  them, when some bytes of the body have gone out. \<^verbatim>\<open>fs.access\<close> rejects when the
  path names neither a file nor a directory, and when a fault is given here.
\<close>

datatype transfer = Delivered | FailedBeforeHeaders string | FailedAfterHeaders string nat

record download_env =
  directories :: "string list"
  access_fault :: "string option"
  on_download :: transfer

definition fs_access ::
  "(string \<Rightarrow> bytes option) \<Rightarrow> string list \<Rightarrow> string option \<Rightarrow> string \<Rightarrow> string + unit" where
  "fs_access d dirs fault p =
     (if d p = None \<and> p \<notin> set dirs then Inl (enoent ''access'' p)
      else (case fault of Some msg \<Rightarrow> Inl msg | None \<Rightarrow> Inr ()))"

text \<open>
  \<^verbatim>\<open>res.setHeader\<close> throws on a value with a character that may not stand in a
  header: a control character other than the tab.
\<close>

definition header_char :: "char \<Rightarrow> bool" where
  "header_char c = (let n = (of_char c :: nat) in n = 9 \<or> (32 \<le> n \<and> n \<le> 126) \<or> 128 \<le> n)"

definition valid_header_value :: "string \<Rightarrow> bool" where
  "valid_header_value v = list_all header_char v"

text \<open>
  What \<^verbatim>\<open>res.download\<close> hands to its callback: no error and the bytes sent, an error
  before the headers were sent, or an error after them with the bytes that went out.
  Nothing is sent of a path that names no file; for a directory the error is
  \<^verbatim>\<open>EISDIR\<close>.
\<close>

datatype sent = SentAll bytes | NotSent string | SentPart string bytes

definition res_download ::
  "(string \<Rightarrow> bytes option) \<Rightarrow> string list \<Rightarrow> transfer \<Rightarrow> string \<Rightarrow> sent" where
  "res_download d dirs t p =
     (case d p of
        None \<Rightarrow> NotSent (if p \<in> set dirs then ''EISDIR, read'' else enoent ''stat'' p)
      | Some b \<Rightarrow>
          (case t of
             Delivered \<Rightarrow> SentAll b
           | FailedBeforeHeaders msg \<Rightarrow> NotSent msg
           | FailedAfterHeaders msg n \<Rightarrow> SentPart msg (take n b)))"

definition not_accessible :: response where
  "not_accessible = \<lparr>status = 404, headers = [], body = Text ''File not found or not accessible.''\<rparr>"

text \<open>
  The handler of \<^verbatim>\<open>GET /download-video/:filename\<close>, with the MIME type it picks by
  the extension and the value it gives the \<^verbatim>\<open>Content-Disposition\<close> header. Everything up to the call of
  \<^verbatim>\<open>res.download\<close> is inside the \<^verbatim>\<open>try\<close> block, so an error of \<^verbatim>\<open>fs.access\<close> or
  of \<^verbatim>\<open>res.setHeader\<close> is answered with the 404 of the \<^verbatim>\<open>catch\<close> block. The handler
  returns the disk as it found it: it makes no call that writes.
\<close>

definition content_type :: "string \<Rightarrow> string" where
  "content_type filename =
     (let ext = toLowerCase (extname filename)
      in if ext = ''.mp4'' then ''video/mp4''
         else if ext = ''.webm'' then ''video/webm''
         else ''application/octet-stream'')"

definition content_disposition :: "string \<Rightarrow> string" where
  "content_disposition filename = ''attachment; filename='' @ [CHR 0x22] @ filename @ [CHR 0x22]"

definition download_video ::
  "string \<Rightarrow> download_env \<Rightarrow> (string \<Rightarrow> bytes option) \<Rightarrow> outcome \<times> (string \<Rightarrow> bytes option)" where
  "download_video filename e d =
     (let filePath = path_join ''/tmp'' filename in
      case fs_access d (directories e) (access_fault e) filePath of
        Inl message \<Rightarrow> (Responded not_accessible, d)
      | Inr ok \<Rightarrow>
          (let mimeType = content_type filename in
           if \<not> valid_header_value (content_disposition filename) then (Responded not_accessible, d)
           else
             (let hs = [(''Content-Type'', mimeType),
                        (''Content-Disposition'', content_disposition filename)] in
              case res_download d (directories e) (on_download e) filePath of
                SentAll content \<Rightarrow> (Responded \<lparr>status = 200, headers = hs, body = File content\<rparr>, d)
              | NotSent message \<Rightarrow>
                  (Responded \<lparr>status = 404, headers = hs,
                     body = Text ''File not found or no longer available. It might have been automatically cleaned up by the OS.''\<rparr>, d)
              | SentPart message part \<Rightarrow>
                  (Responded \<lparr>status = 200, headers = hs, body = File part\<rparr>, d))))"

section \<open>What a job does, read off its answers\<close>

text \<open>
  The paths of a job, the calls it makes from start to end, and the calls it has made
  when it waits at a given point. These are used to state what every run preserves.
\<close>

definition input_path :: "uploaded_file \<Rightarrow> job_env \<Rightarrow> string" where
  "input_path file e = path_join ''/tmp'' (uuid e @ ''_input'' @ extname (originalname file))"

definition output_path :: "string \<Rightarrow> job_env \<Rightarrow> string" where
  "output_path targetFormat e = path_join ''/tmp'' (uuid e @ ''_output.'' @ toLowerCase targetFormat)"

definition exit_ok :: "job_env \<Rightarrow> bool" where
  "exit_ok e = (case on_ffmpeg e of SpawnError message \<Rightarrow> False | Closed code err written \<Rightarrow> code = Some 0)"

definition all_calls :: "string \<Rightarrow> uploaded_file \<Rightarrow> job_env \<Rightarrow> call list" where
  "all_calls targetFormat file e =
     WriteFile (input_path file e) (buffer file) #
     (if on_write e = WriteOk then
        Spawn ''ffmpeg'' (ffmpegArgs targetFormat (input_path file e) (output_path targetFormat e)) #
        (if exit_ok e then [Stat (output_path targetFormat e)] else [])
      else []) @
     [Unlink (input_path file e)]"

definition made_calls :: "string \<Rightarrow> uploaded_file \<Rightarrow> job_env \<Rightarrow> wait \<Rightarrow> call list" where
  "made_calls targetFormat file e wt =
     (case wt of
        AwaitWrite \<Rightarrow> take 1 (all_calls targetFormat file e)
      | AwaitClose \<Rightarrow> take 2 (all_calls targetFormat file e)
      | AwaitStat \<Rightarrow> take 3 (all_calls targetFormat file e)
      | AwaitUnlink result \<Rightarrow> all_calls targetFormat file e
      | Settled result \<Rightarrow> all_calls targetFormat file e)"

text \<open>
  The value a job may return, given its answers: the failure object with the message of
  the first operation that failed, or, when none did, the success object with some size
  or the failure object for a missing output file.
\<close>

definition result_ok ::
  "convert_request \<Rightarrow> string \<Rightarrow> string \<Rightarrow> uploaded_file \<Rightarrow> job_env \<Rightarrow> json \<Rightarrow> bool" where
  "result_ok req targetFormat targetMimeType file e r =
     (case on_write e of
        WriteFailed message partial \<Rightarrow> r = failure_result file message
      | WriteOk \<Rightarrow>
          (case on_ffmpeg e of
             SpawnError message \<Rightarrow> r = failure_result file (''Failed to start FFmpeg: '' @ message)
           | Closed code err written \<Rightarrow>
               if code \<noteq> Some 0 then
                 r = failure_result file
                       (''FFmpeg conversion failed: '' @ (if err = [] then ''Unknown FFmpeg error'' else err))
               else
                 (case stat_fault e of
                    Some message \<Rightarrow> r = failure_result file message
                  | None \<Rightarrow>
                      r = failure_result file (enoent ''stat'' (output_path targetFormat e)) \<or>
                      (\<exists>sz. r = success_result req file (output_path targetFormat e) targetMimeType sz))))"

text \<open>
  What every resumption preserves of job \<open>i\<close>, whatever the other jobs do: its paths,
  the calls it has added to those of the world \<open>w0\<close> the batch started in, and what is
  known of its answers at the point where it waits.
\<close>

definition job_inv ::
  "convert_request \<Rightarrow> string \<Rightarrow> string \<Rightarrow> world \<Rightarrow> nat \<Rightarrow> uploaded_file \<Rightarrow> job_env \<Rightarrow> job \<Rightarrow> world \<Rightarrow> bool" where
  "job_inv req targetFormat targetMimeType w0 i file e j w =
     (inputFilePath j = input_path file e \<and>
      outputFilePath j = output_path targetFormat e \<and>
      calls_of i w = calls_of i w0 @ made_calls targetFormat file e (wait j) \<and>
      (case wait j of
         AwaitWrite \<Rightarrow> True
       | AwaitClose \<Rightarrow> on_write e = WriteOk
       | AwaitStat \<Rightarrow> on_write e = WriteOk \<and> exit_ok e
       | AwaitUnlink r \<Rightarrow> result_ok req targetFormat targetMimeType file e r
       | Settled r \<Rightarrow> result_ok req targetFormat targetMimeType file e r))"

definition batch_inv ::
  "convert_request \<Rightarrow> string \<Rightarrow> string \<Rightarrow> world \<Rightarrow> uploaded_file list \<Rightarrow> (nat \<Rightarrow> job_env) \<Rightarrow>
   job list \<Rightarrow> world \<Rightarrow> bool" where
  "batch_inv req targetFormat targetMimeType w0 fs envs js w =
     (length js = length fs \<and>
      (\<forall>i < length fs. job_inv req targetFormat targetMimeType w0 i (fs ! i) (envs i) (js ! i) w))"

text \<open>
  One job run alone on the disk \<open>d0\<close>: the content of its two files after each of its
  operations, and the value it returns.
\<close>

definition input_written :: "uploaded_file \<Rightarrow> job_env \<Rightarrow> (string \<Rightarrow> bytes option) \<Rightarrow> bytes option" where
  "input_written file e d0 =
     (case on_write e of
        WriteOk \<Rightarrow> Some (buffer file)
      | WriteFailed message partial \<Rightarrow>
          (case partial of None \<Rightarrow> d0 (input_path file e) | Some b \<Rightarrow> Some b))"

definition input_unlinked :: "uploaded_file \<Rightarrow> job_env \<Rightarrow> (string \<Rightarrow> bytes option) \<Rightarrow> bytes option" where
  "input_unlinked file e d0 =
     (case input_written file e d0 of
        None \<Rightarrow> None
      | Some b \<Rightarrow> (case unlink_fault e of None \<Rightarrow> None | Some message \<Rightarrow> Some b))"

definition output_encoded :: "string \<Rightarrow> job_env \<Rightarrow> (string \<Rightarrow> bytes option) \<Rightarrow> bytes option" where
  "output_encoded targetFormat e d0 =
     (case on_ffmpeg e of
        SpawnError message \<Rightarrow> d0 (output_path targetFormat e)
      | Closed code err written \<Rightarrow>
          (case written of None \<Rightarrow> d0 (output_path targetFormat e) | Some b \<Rightarrow> Some b))"

definition output_kept :: "string \<Rightarrow> job_env \<Rightarrow> (string \<Rightarrow> bytes option) \<Rightarrow> bytes option" where
  "output_kept targetFormat e d0 =
     (case on_write e of
        WriteOk \<Rightarrow> output_encoded targetFormat e d0
      | WriteFailed message partial \<Rightarrow> d0 (output_path targetFormat e))"

definition job_result ::
  "convert_request \<Rightarrow> string \<Rightarrow> string \<Rightarrow> uploaded_file \<Rightarrow> job_env \<Rightarrow> (string \<Rightarrow> bytes option) \<Rightarrow> json" where
  "job_result req targetFormat targetMimeType file e d0 =
     (case on_write e of
        WriteFailed message partial \<Rightarrow> failure_result file message
      | WriteOk \<Rightarrow>
          (case on_ffmpeg e of
             SpawnError message \<Rightarrow> failure_result file (''Failed to start FFmpeg: '' @ message)
           | Closed code err written \<Rightarrow>
               if code \<noteq> Some 0 then
                 failure_result file
                   (''FFmpeg conversion failed: '' @ (if err = [] then ''Unknown FFmpeg error'' else err))
               else
                 (case stat_fault e of
                    Some message \<Rightarrow> failure_result file message
                  | None \<Rightarrow>
                      (case output_encoded targetFormat e d0 of
                         None \<Rightarrow> failure_result file (enoent ''stat'' (output_path targetFormat e))
                       | Some b \<Rightarrow>
                           success_result req file (output_path targetFormat e) targetMimeType (length b)))))"

text \<open>
  What every resumption preserves of the two files of a job when no other job uses its
  paths.
\<close>

definition disk_inv ::
  "convert_request \<Rightarrow> string \<Rightarrow> string \<Rightarrow> (string \<Rightarrow> bytes option) \<Rightarrow> uploaded_file \<Rightarrow> job_env \<Rightarrow> job \<Rightarrow>
   (string \<Rightarrow> bytes option) \<Rightarrow> bool" where
  "disk_inv req targetFormat targetMimeType d0 file e j d =
     (case wait j of
        AwaitWrite \<Rightarrow>
          d (output_path targetFormat e) = d0 (output_path targetFormat e) \<and>
          d (input_path file e) = d0 (input_path file e)
      | AwaitClose \<Rightarrow>
          d (output_path targetFormat e) = d0 (output_path targetFormat e) \<and>
          d (input_path file e) = Some (buffer file)
      | AwaitStat \<Rightarrow>
          d (output_path targetFormat e) = output_encoded targetFormat e d0 \<and>
          d (input_path file e) = Some (buffer file)
      | AwaitUnlink r \<Rightarrow>
          r = job_result req targetFormat targetMimeType file e d0 \<and>
          d (output_path targetFormat e) = output_kept targetFormat e d0 \<and>
          d (input_path file e) = input_written file e d0
      | Settled r \<Rightarrow>
          r = job_result req targetFormat targetMimeType file e d0 \<and>
          d (output_path targetFormat e) = output_kept targetFormat e d0 \<and>
          d (input_path file e) = input_unlinked file e d0)"

text \<open>How many more resumptions a job needs at most.\<close>

fun remaining :: "wait \<Rightarrow> nat" where
  "remaining AwaitWrite = 4"
| "remaining AwaitClose = 3"
| "remaining AwaitStat = 2"
| "remaining (AwaitUnlink r) = 1"
| "remaining (Settled r) = 0"

section \<open>Example inputs\<close>

text \<open>
  A batch of two files for the target \<^verbatim>\<open>webm\<close>: the encoder succeeds for the first and
  exits with code 1 for the second.
\<close>

definition clip_a :: uploaded_file where
  "clip_a = \<lparr>originalname = ''a.mov'', mimetype = ''video/quicktime'', buffer = ''AAAA''\<rparr>"

definition clip_b :: uploaded_file where
  "clip_b = \<lparr>originalname = ''b.avi'', mimetype = ''video/x-msvideo'', buffer = ''BB''\<rparr>"

definition env_a :: job_env where
  "env_a = \<lparr>uuid = ''123e4567-e89b-42d3-a456-426614174000'', on_write = WriteOk,
             on_ffmpeg = Closed (Some 0) [] (Some ''webm-bytes''), stat_fault = None,
             unlink_fault = None\<rparr>"

definition env_b :: job_env where
  "env_b = \<lparr>uuid = ''9b2e0c1a-7f3d-4c55-8e21-0a1b2c3d4e5f'', on_write = WriteOk,
             on_ffmpeg = Closed (Some 1) ''Invalid data found when processing input'' None,
             stat_fault = None, unlink_fault = None\<rparr>"

definition example_envs :: "nat \<Rightarrow> job_env" where
  "example_envs i = (if i = 0 then env_a else env_b)"

definition example_request :: convert_request where
  "example_request = \<lparr>files = Some [clip_a, clip_b], format = Some ''webm'', protocol = ''http'',
                       host = Some ''localhost:3001''\<rparr>"

definition empty_world :: world where
  "empty_world = \<lparr>disk = (\<lambda>p. None), calls = []\<rparr>"

definition example_schedule :: "nat list" where
  "example_schedule = [1, 0, 0, 1, 1, 0, 0]"

text \<open>
  A batch of one file for the target \<^verbatim>\<open>mp4\<close>, and two ways the outside may answer it:
  the encoder exits with code 0 but writes no file; and the conversion succeeds but
  \<^verbatim>\<open>fs.unlink\<close> is refused.
\<close>

definition single_request :: convert_request where
  "single_request = \<lparr>files = Some [clip_a], format = Some ''mp4'', protocol = ''https'',
                      host = Some ''media.example.org''\<rparr>"

definition env_no_output :: job_env where
  "env_no_output = \<lparr>uuid = ''0f8fad5b-d9cb-469f-a165-70867728950e'', on_write = WriteOk,
                     on_ffmpeg = Closed (Some 0) [] None, stat_fault = None, unlink_fault = None\<rparr>"

definition env_unlink_refused :: job_env where
  "env_unlink_refused = \<lparr>uuid = ''7c9e6679-7425-40de-944b-e07fc1f90ae7'', on_write = WriteOk,
                          on_ffmpeg = Closed (Some 0) [] (Some ''mp4-bytes''), stat_fault = None,
                          unlink_fault = Some ''EPERM: operation not permitted, unlink''\<rparr>"

text \<open>
  A batch of four files for the target \<^verbatim>\<open>mp4\<close> in which every job fails in its own
  way: the write, the start of the encoder, the encoding, the stat of the output.
\<close>

definition env_write_fails :: job_env where
  "env_write_fails = \<lparr>uuid = ''3f2504e0-4f89-41d3-9a0c-0305e82c3301'',
                       on_write = WriteFailed ''ENOSPC: no space left on device, write'' None,
                       on_ffmpeg = Closed (Some 0) [] None, stat_fault = None, unlink_fault = None\<rparr>"

definition env_spawn_fails :: job_env where
  "env_spawn_fails = \<lparr>uuid = ''6fa459ea-ee8a-4ca4-894e-db77e160355e'', on_write = WriteOk,
                       on_ffmpeg = SpawnError ''spawn ffmpeg ENOENT'', stat_fault = None,
                       unlink_fault = None\<rparr>"

definition env_stat_fails :: job_env where
  "env_stat_fails = \<lparr>uuid = ''16fd2706-8baf-433b-82eb-8c7fada847da'', on_write = WriteOk,
                      on_ffmpeg = Closed (Some 0) [] (Some ''mp4-bytes''),
                      stat_fault = Some ''EACCES: permission denied, stat'', unlink_fault = None\<rparr>"

definition failing_envs :: "nat \<Rightarrow> job_env" where
  "failing_envs i =
     (if i = 0 then env_write_fails else if i = 1 then env_spawn_fails
      else if i = 2 then env_b else env_stat_fails)"

definition failing_request :: convert_request where
  "failing_request = \<lparr>files = Some [clip_a, clip_b, clip_a, clip_b], format = Some ''mp4'',
                       protocol = ''http'', host = None\<rparr>"

definition failing_schedule :: "nat list" where
  "failing_schedule = [0, 1, 2, 3, 3, 2, 1, 0, 1, 2, 3, 3]"

section \<open>Joined paths\<close>

lemma segments_nonempty: "segments p \<noteq> []"
  by (induction p) (auto split: list.splits)

lemma segments_slash_free: "s \<in> set (segments p) \<Longrightarrow> CHR ''/'' \<notin> set s"
proof (induction p arbitrary: s)
  case Nil
  then show ?case by simp
next
  case (Cons c cs)
  obtain a rest where seg: "segments cs = a # rest"
    using segments_nonempty [of cs] by (cases "segments cs") auto
  show ?case
  proof (cases "c = CHR ''/''")
    case True
    with Cons show ?thesis by auto
  next
    case False
    with Cons.prems seg have "s = c # a \<or> s \<in> set rest" by simp
    then show ?thesis
    proof
      assume "s = c # a"
      with False Cons.IH [of a] seg show ?thesis by simp
    next
      assume "s \<in> set rest"
      with seg have "s \<in> set (segments cs)" by simp
      then show ?thesis by (rule Cons.IH)
    qed
  qed
qed

lemma segments_plain: "CHR ''/'' \<notin> set t \<Longrightarrow> segments t = [t]"
  by (induction t) auto

text \<open>Text without a slash, put after a path, goes to the last segment of the path.\<close>

lemma segments_append:
  "CHR ''/'' \<notin> set t \<Longrightarrow> segments (p @ t) = butlast (segments p) @ [last (segments p) @ t]"
proof (induction p)
  case Nil
  then show ?case by (simp add: segments_plain)
next
  case (Cons c cs)
  from Cons have ih: "segments (cs @ t) = butlast (segments cs) @ [last (segments cs) @ t]" by simp
  obtain a rest where seg: "segments cs = a # rest"
    using segments_nonempty [of cs] by (cases "segments cs") auto
  show ?case
  proof (cases rest)
    case Nil
    with ih seg show ?thesis by simp
  next
    case (Cons b bs)
    with ih seg show ?thesis by simp
  qed
qed

lemma normalizeString_append:
  "normalizeString a res (xs @ ys) = normalizeString a (normalizeString a res xs) ys"
  by (induction xs arbitrary: res) simp_all

lemma join_slash_snoc: "join_slash (xs @ [s]) = (if xs = [] then s else join_slash xs @ ''/'' @ s)"
  by (induction xs rule: join_slash.induct) simp_all

lemma normalize_absolute:
  assumes "p \<noteq> []" "hd p = CHR ''/''" "last p \<noteq> CHR ''/''"
    and "normalizeString False [] (segments p) = st" "st \<noteq> []" "last st \<noteq> []"
  shows "normalize p = ''/'' @ join_slash st"
proof -
  from assms(5) obtain xs s where st: "st = xs @ [s]"
    by (cases st rule: rev_cases) auto
  with assms(6) have "s \<noteq> []" by simp
  then have "join_slash st \<noteq> []"
    unfolding st join_slash_snoc by simp
  with assms(1-4) show ?thesis
    by (simp add: normalize_def Let_def)
qed

lemma path_join_nonempty: "path_join dir name \<noteq> []"
  by (simp add: path_join_def normalize_def Let_def)

text \<open>
  A name that is one ordinary segment is put under \<^verbatim>\<open>/tmp\<close> as it is.
\<close>

lemma path_join_plain:
  assumes "name \<noteq> []" "CHR ''/'' \<notin> set name" "name \<noteq> ''.''" "name \<noteq> ''..''"
  shows "path_join ''/tmp'' name = ''/tmp/'' @ name"
proof -
  have seg: "segments (''/tmp/'' @ name) = [[], ''tmp'', name]"
    using assms(2) by (simp add: segments_plain)
  have st: "normalizeString False [] (segments (''/tmp/'' @ name)) = [''tmp'', name]"
    unfolding seg using assms(1,3,4) by simp
  have "normalize (''/tmp/'' @ name) = ''/'' @ join_slash [''tmp'', name]"
  proof (rule normalize_absolute [OF _ _ _ st])
    show "''/tmp/'' @ name \<noteq> []" by simp
    show "hd (''/tmp/'' @ name) = CHR ''/''" by simp
    have "last name \<in> set name" using assms(1) by (rule last_in_set)
    with assms(2) have "last name \<noteq> CHR ''/''" by metis
    with assms(1) show "last (''/tmp/'' @ name) \<noteq> CHR ''/''" by simp
    show "[''tmp'', name] \<noteq> []" by simp
    show "last [''tmp'', name] \<noteq> []" using assms(1) by simp
  qed
  with assms(1) show ?thesis
    by (simp add: path_join_def)
qed

text \<open>
  Whatever the name starts with, text without a slash at its end is the end of the joined
  path, after a part that the start of the name alone decides.
\<close>

lemma path_join_tail:
  "\<exists>pre l. CHR ''/'' \<notin> set l \<and>
     (\<forall>t. t \<noteq> [] \<and> CHR ''/'' \<notin> set t \<and> l @ t \<noteq> ''.'' \<and> l @ t \<noteq> ''..'' \<longrightarrow>
        path_join ''/tmp'' (u @ t) = pre @ ''/'' @ l @ t)"
proof -
  define segs where "segs = segments (''/tmp/'' @ u)"
  define l where "l = last segs"
  define st where "st = normalizeString False [] (butlast segs)"
  define pre where "pre = (if st = [] then [] else ''/'' @ join_slash st)"
  have ne: "segs \<noteq> []" unfolding segs_def by (rule segments_nonempty)
  then have "l \<in> set segs" unfolding l_def by simp
  then have noslash: "CHR ''/'' \<notin> set l"
    unfolding segs_def by (rule segments_slash_free)
  have "path_join ''/tmp'' (u @ t) = pre @ ''/'' @ l @ t"
    if t: "t \<noteq> []" "CHR ''/'' \<notin> set t" "l @ t \<noteq> ''.''" "l @ t \<noteq> ''..''" for t
  proof -
    have "segments ((''/tmp/'' @ u) @ t) = butlast segs @ [l @ t]"
      unfolding segs_def l_def using t(2) by (rule segments_append)
    then have seg: "segments (''/tmp/'' @ u @ t) = butlast segs @ [l @ t]" by simp
    have lt: "l @ t \<noteq> []" using t(1) by simp
    have stk: "normalizeString False [] (segments (''/tmp/'' @ u @ t)) = st @ [l @ t]"
      unfolding seg normalizeString_append st_def using lt t(3,4) by simp
    have "normalize (''/tmp/'' @ u @ t) = ''/'' @ join_slash (st @ [l @ t])"
    proof (rule normalize_absolute [OF _ _ _ stk])
      show "''/tmp/'' @ u @ t \<noteq> []" by simp
      show "hd (''/tmp/'' @ u @ t) = CHR ''/''" by simp
      have "last t \<in> set t" using t(1) by (rule last_in_set)
      with t(2) have "last t \<noteq> CHR ''/''" by metis
      with t(1) show "last (''/tmp/'' @ u @ t) \<noteq> CHR ''/''" by simp
      show "st @ [l @ t] \<noteq> []" by simp
      show "last (st @ [l @ t]) \<noteq> []" using lt by simp
    qed
    also have "\<dots> = pre @ ''/'' @ l @ t"
      unfolding join_slash_snoc pre_def by simp
    finally show ?thesis using t(1) by (simp add: path_join_def)
  qed
  with noslash show ?thesis by blast
qed

lemma last_component_slash_free: "CHR ''/'' \<notin> set (last_component p)"
proof
  assume "CHR ''/'' \<in> set (last_component p)"
  then have "CHR ''/'' \<in> set (takeWhile (\<lambda>c. c \<noteq> CHR ''/'') (dropWhile (\<lambda>c. c = CHR ''/'') (rev p)))"
    by (simp only: last_component_def set_rev)
  then have "CHR ''/'' \<noteq> CHR ''/''"
    by (rule set_takeWhileD [THEN conjunct2])
  then show False by simp
qed

lemma extname_slash_free: "CHR ''/'' \<notin> set (extname p)"
proof
  assume a: "CHR ''/'' \<in> set (extname p)"
  then have "extname p = CHR ''.'' # rev (takeWhile (\<lambda>c. c \<noteq> CHR ''.'') (rev (last_component p)))"
    by (simp add: extname_def Let_def split: if_splits)
  with a have "CHR ''/'' \<in> set (takeWhile (\<lambda>c. c \<noteq> CHR ''.'') (rev (last_component p)))"
    by simp
  then have "CHR ''/'' \<in> set (rev (last_component p))"
    by (rule set_takeWhileD [THEN conjunct1])
  with last_component_slash_free [of p] show False by simp
qed

text \<open>
  The two paths of a job. They differ, since one name goes on with \<^verbatim>\<open>_input\<close> where
  the other goes on with \<^verbatim>\<open>_output.\<close>; a format without a slash is all this needs,
  and the two allowed formats have none. The output path ends in a dot and the format in
  lower case. With an identifier as \<^verbatim>\<open>uuidv4()\<close> returns it, both names are ordinary
  segments and the paths are the names after \<^verbatim>\<open>/tmp/\<close>.
\<close>

lemma underscore_tail: "l @ CHR ''_'' # t \<noteq> ''.''" "l @ CHR ''_'' # t \<noteq> ''..''"
proof -
  have "CHR ''_'' \<in> set (l @ CHR ''_'' # t)" by simp
  moreover have "CHR ''_'' \<notin> set ''.''" "CHR ''_'' \<notin> set ''..''" by simp_all
  ultimately show "l @ CHR ''_'' # t \<noteq> ''.''" "l @ CHR ''_'' # t \<noteq> ''..''" by metis+
qed

lemma job_paths:
  assumes "CHR ''/'' \<notin> set (toLowerCase fmt)"
  shows "\<exists>pre l. input_path file e = pre @ ''/'' @ l @ ''_input'' @ extname (originalname file) \<and>
    output_path fmt e = pre @ ''/'' @ l @ ''_output.'' @ toLowerCase fmt"
proof -
  from path_join_tail [of "uuid e"] obtain pre l where
    tail: "\<And>t. t \<noteq> [] \<Longrightarrow> CHR ''/'' \<notin> set t \<Longrightarrow> l @ t \<noteq> ''.'' \<Longrightarrow> l @ t \<noteq> ''..'' \<Longrightarrow>
        path_join ''/tmp'' (uuid e @ t) = pre @ ''/'' @ l @ t"
    by blast
  have "path_join ''/tmp'' (uuid e @ ''_input'' @ extname (originalname file)) =
      pre @ ''/'' @ l @ ''_input'' @ extname (originalname file)"
  proof (rule tail)
    show "''_input'' @ extname (originalname file) \<noteq> []" by simp
    show "CHR ''/'' \<notin> set (''_input'' @ extname (originalname file))"
      using extname_slash_free [of "originalname file"] by simp
    show "l @ ''_input'' @ extname (originalname file) \<noteq> ''.''"
      using underscore_tail(1) [of l "''input'' @ extname (originalname file)"] by simp
    show "l @ ''_input'' @ extname (originalname file) \<noteq> ''..''"
      using underscore_tail(2) [of l "''input'' @ extname (originalname file)"] by simp
  qed
  moreover have "path_join ''/tmp'' (uuid e @ ''_output.'' @ toLowerCase fmt) =
      pre @ ''/'' @ l @ ''_output.'' @ toLowerCase fmt"
  proof (rule tail)
    show "''_output.'' @ toLowerCase fmt \<noteq> []" by simp
    show "CHR ''/'' \<notin> set (''_output.'' @ toLowerCase fmt)"
      using assms by simp
    show "l @ ''_output.'' @ toLowerCase fmt \<noteq> ''.''"
      using underscore_tail(1) [of l "''output.'' @ toLowerCase fmt"] by simp
    show "l @ ''_output.'' @ toLowerCase fmt \<noteq> ''..''"
      using underscore_tail(2) [of l "''output.'' @ toLowerCase fmt"] by simp
  qed
  ultimately show ?thesis
    unfolding input_path_def output_path_def by blast
qed

lemma input_path_nonempty: "input_path file e \<noteq> []"
  unfolding input_path_def by (rule path_join_nonempty)

lemma in_out_distinct:
  assumes "CHR ''/'' \<notin> set (toLowerCase fmt)"
  shows "input_path f e \<noteq> output_path fmt e"
proof -
  from job_paths [of fmt f e, OF assms] obtain pre l where
    "input_path f e = pre @ ''/'' @ l @ ''_input'' @ extname (originalname f)"
    "output_path fmt e = pre @ ''/'' @ l @ ''_output.'' @ toLowerCase fmt"
    by blast
  then show ?thesis by simp
qed

lemma output_path_suffix:
  assumes "CHR ''/'' \<notin> set (toLowerCase fmt)"
  shows "suffix (''.'' @ toLowerCase fmt) (output_path fmt e)"
proof -
  from job_paths [of fmt _ e, OF assms] obtain pre l where
    "output_path fmt e = pre @ ''/'' @ l @ ''_output.'' @ toLowerCase fmt"
    by blast
  then have "output_path fmt e = (pre @ ''/'' @ l @ ''_output'') @ ''.'' @ toLowerCase fmt"
    by simp
  then show ?thesis by (rule suffixI)
qed

lemma uuid_char: "c \<in> set ''0123456789abcdef-'' \<Longrightarrow> c \<noteq> CHR ''/'' \<and> c \<noteq> CHR ''.''"
  by auto

lemma uuid_chars:
  assumes "is_uuid u"
  shows "\<forall>c \<in> set u. c \<in> set ''0123456789abcdef-''"
proof -
  from assms have "list_all (\<lambda>c. c \<in> set ''0123456789abcdef-'') u"
    unfolding is_uuid_def by (rule conjunct2)
  then show ?thesis by (simp only: list_all_iff)
qed

lemma no_slash_uuid: "is_uuid u \<Longrightarrow> CHR ''/'' \<notin> set u \<and> CHR ''.'' \<notin> set u"
  using uuid_chars [of u] uuid_char by blast

lemma uuid_paths:
  assumes "is_uuid (uuid e)"
  shows "input_path file e = ''/tmp/'' @ uuid e @ ''_input'' @ extname (originalname file)"
    and "CHR ''/'' \<notin> set (toLowerCase fmt) \<Longrightarrow>
      output_path fmt e = ''/tmp/'' @ uuid e @ ''_output.'' @ toLowerCase fmt"
proof -
  note u = no_slash_uuid [OF assms, THEN conjunct1]
  show "input_path file e = ''/tmp/'' @ uuid e @ ''_input'' @ extname (originalname file)"
    unfolding input_path_def
  proof (rule path_join_plain)
    show "uuid e @ ''_input'' @ extname (originalname file) \<noteq> []" by simp
    show "CHR ''/'' \<notin> set (uuid e @ ''_input'' @ extname (originalname file))"
      using u extname_slash_free [of "originalname file"] by simp
    show "uuid e @ ''_input'' @ extname (originalname file) \<noteq> ''.''"
      using underscore_tail(1) [of "uuid e" "''input'' @ extname (originalname file)"] by simp
    show "uuid e @ ''_input'' @ extname (originalname file) \<noteq> ''..''"
      using underscore_tail(2) [of "uuid e" "''input'' @ extname (originalname file)"] by simp
  qed
  show "output_path fmt e = ''/tmp/'' @ uuid e @ ''_output.'' @ toLowerCase fmt"
    if f: "CHR ''/'' \<notin> set (toLowerCase fmt)"
    unfolding output_path_def
  proof (rule path_join_plain)
    show "uuid e @ ''_output.'' @ toLowerCase fmt \<noteq> []" by simp
    show "CHR ''/'' \<notin> set (uuid e @ ''_output.'' @ toLowerCase fmt)"
      using u f by simp
    show "uuid e @ ''_output.'' @ toLowerCase fmt \<noteq> ''.''"
      using underscore_tail(1) [of "uuid e" "''output.'' @ toLowerCase fmt"] by simp
    show "uuid e @ ''_output.'' @ toLowerCase fmt \<noteq> ''..''"
      using underscore_tail(2) [of "uuid e" "''output.'' @ toLowerCase fmt"] by simp
  qed
qed

section \<open>Steps of one job\<close>

lemma calls_put_file: "calls (put_file p content w) = calls w"
  by (simp add: put_file_def split: option.splits)

lemma finally_block_calls:
  "finally_block i j r w = (j', w') \<Longrightarrow> k \<noteq> i \<Longrightarrow> calls_of k w' = calls_of k w"
  by (auto simp: finally_block_def calls_of_def split: if_splits)

lemma job_step_other:
  assumes "job_step req fmt mime i file e j w = (j', w')" "k \<noteq> i"
  shows "calls_of k w' = calls_of k w"
proof (cases "wait j")
  case AwaitWrite
  with assms show ?thesis
    by (cases "on_write e")
       (auto simp: job_step_def catch_block_def calls_of_def calls_put_file finally_block_def split: if_splits)
next
  case AwaitClose
  with assms show ?thesis
    by (cases "on_ffmpeg e")
       (auto simp: job_step_def catch_block_def calls_of_def calls_put_file finally_block_def Let_def split: if_splits)
next
  case AwaitStat
  with assms show ?thesis
    by (auto simp: job_step_def catch_block_def calls_of_def finally_block_def split: sum.splits if_splits)
next
  case (AwaitUnlink r)
  with assms show ?thesis
    by (auto simp: job_step_def calls_of_def)
next
  case (Settled r)
  with assms show ?thesis
    by (auto simp: job_step_def)
qed

lemma job_step_inv:
  assumes inv: "job_inv req fmt mime w0 i file e j w" and step: "job_step req fmt mime i file e j w = (j', w')"
  shows "job_inv req fmt mime w0 i file e j' w'"
proof (cases "wait j")
  case AwaitWrite
  show ?thesis
  proof (cases "on_write e")
    case WriteOk
    with AwaitWrite inv step show ?thesis
      by (auto simp: job_inv_def job_step_def calls_of_def made_calls_def all_calls_def)
  next
    case (WriteFailed msg partial)
    with AwaitWrite inv step show ?thesis
      by (auto simp: job_inv_def job_step_def catch_block_def finally_block_def input_path_nonempty
            calls_of_def calls_put_file made_calls_def all_calls_def result_ok_def)
  qed
next
  case AwaitClose
  show ?thesis
  proof (cases "on_ffmpeg e")
    case (SpawnError msg)
    with AwaitClose inv step show ?thesis
      by (auto simp: job_inv_def job_step_def catch_block_def finally_block_def input_path_nonempty
            calls_of_def made_calls_def all_calls_def result_ok_def exit_ok_def)
  next
    case (Closed code err written)
    with AwaitClose inv step show ?thesis
      by (cases "code = Some 0")
         (auto simp: job_inv_def job_step_def catch_block_def finally_block_def input_path_nonempty
            calls_of_def calls_put_file made_calls_def all_calls_def result_ok_def exit_ok_def Let_def)
  qed
next
  case AwaitStat
  show ?thesis
  proof (cases "fs_stat (disk w) (stat_fault e) (outputFilePath j)")
    case (Inl msg)
    with AwaitStat inv step show ?thesis
      by (auto simp: job_inv_def job_step_def catch_block_def finally_block_def input_path_nonempty
            calls_of_def made_calls_def all_calls_def result_ok_def exit_ok_def fs_stat_def
            split: proc_outcome.splits option.splits)
  next
    case (Inr sz)
    with AwaitStat inv step show ?thesis
      by (auto simp: job_inv_def job_step_def finally_block_def input_path_nonempty
            calls_of_def made_calls_def all_calls_def result_ok_def exit_ok_def fs_stat_def
            split: proc_outcome.splits option.splits)
  qed
next
  case (AwaitUnlink r)
  with inv step show ?thesis
    by (auto simp: job_inv_def job_step_def calls_of_def made_calls_def)
next
  case (Settled r)
  with inv step show ?thesis
    by (auto simp: job_step_def)
qed

lemma job_step_remaining:
  assumes "job_step req fmt mime i file e j w = (j', w')"
  shows "remaining (wait j') \<le> remaining (wait j) - 1"
proof (cases "wait j")
  case AwaitWrite
  with assms show ?thesis
    by (cases "on_write e") (auto simp: job_step_def catch_block_def finally_block_def split: if_splits)
next
  case AwaitClose
  with assms show ?thesis
    by (cases "on_ffmpeg e") (auto simp: job_step_def catch_block_def finally_block_def Let_def split: if_splits)
next
  case AwaitStat
  with assms show ?thesis
    by (auto simp: job_step_def catch_block_def finally_block_def split: sum.splits if_splits)
next
  case (AwaitUnlink r)
  with assms show ?thesis by (auto simp: job_step_def)
next
  case (Settled r)
  with assms show ?thesis by (auto simp: job_step_def)
qed

lemma paths_distinct:
  assumes "is_uuid (uuid e1)" "is_uuid (uuid e2)" "uuid e1 \<noteq> uuid e2"
    and "CHR ''/'' \<notin> set (toLowerCase fmt)"
  shows "input_path f1 e1 \<noteq> input_path f2 e2" "input_path f1 e1 \<noteq> output_path fmt e2"
    "output_path fmt e1 \<noteq> input_path f2 e2" "output_path fmt e1 \<noteq> output_path fmt e2"
  unfolding uuid_paths(1) [OF assms(1)] uuid_paths(1) [OF assms(2)]
    uuid_paths(2) [OF assms(1,4)] uuid_paths(2) [OF assms(2,4)]
  using assms(1-3) by (auto simp: is_uuid_def)

lemma fresh_uuidsD:
  assumes "fresh_uuids envs n" "i < n" "k < n" "i \<noteq> k"
  shows "is_uuid (uuid (envs i))" "is_uuid (uuid (envs k))" "uuid (envs i) \<noteq> uuid (envs k)"
proof -
  from assms show "is_uuid (uuid (envs i))" "is_uuid (uuid (envs k))"
    by (auto simp: fresh_uuids_def list_all_iff)
  from assms have "distinct (map (\<lambda>i. uuid (envs i)) [0..<n])"
    by (simp add: fresh_uuids_def)
  with assms(2-4) show "uuid (envs i) \<noteq> uuid (envs k)"
    by (auto simp: distinct_conv_nth)
qed

lemma job_step_disk_frame:
  assumes "job_step req fmt mime i file e j w = (j', w')" "p \<noteq> inputFilePath j" "p \<noteq> outputFilePath j"
  shows "disk w' p = disk w p"
proof (cases "wait j")
  case AwaitWrite
  with assms show ?thesis
    by (cases "on_write e")
       (auto simp: job_step_def catch_block_def finally_block_def put_file_def split: if_splits option.splits)
next
  case AwaitClose
  with assms show ?thesis
    by (cases "on_ffmpeg e")
       (auto simp: job_step_def catch_block_def finally_block_def put_file_def Let_def split: if_splits option.splits)
next
  case AwaitStat
  with assms show ?thesis
    by (auto simp: job_step_def catch_block_def finally_block_def split: sum.splits if_splits)
next
  case (AwaitUnlink r)
  with assms show ?thesis
    by (auto simp: job_step_def fs_unlink_def split: option.splits)
next
  case (Settled r)
  with assms show ?thesis by (auto simp: job_step_def)
qed

lemma job_step_disk_inv:
  assumes inv: "job_inv req fmt mime w0 i file e j w"
    and dinv: "disk_inv req fmt mime d0 file e j (disk w)"
    and step: "job_step req fmt mime i file e j w = (j', w')"
    and in_out_distinct: "input_path file e \<noteq> output_path fmt e"
  shows "disk_inv req fmt mime d0 file e j' (disk w')"
proof (cases "wait j")
  case AwaitWrite
  show ?thesis
  proof (cases "on_write e")
    case WriteOk
    with AwaitWrite inv dinv step show ?thesis
      by (auto simp: job_inv_def disk_inv_def job_step_def in_out_distinct [symmetric])
  next
    case (WriteFailed msg partial)
    with AwaitWrite inv dinv step show ?thesis
      by (auto simp: job_inv_def disk_inv_def job_step_def catch_block_def finally_block_def input_path_nonempty
            put_file_def job_result_def input_written_def output_kept_def in_out_distinct [symmetric]
            split: option.splits)
  qed
next
  case AwaitClose
  show ?thesis
  proof (cases "on_ffmpeg e")
    case (SpawnError msg)
    with AwaitClose inv dinv step show ?thesis
      by (auto simp: job_inv_def disk_inv_def job_step_def catch_block_def finally_block_def input_path_nonempty
            job_result_def input_written_def output_kept_def output_encoded_def)
  next
    case (Closed code err written)
    with AwaitClose inv dinv step show ?thesis
      by (cases "code = Some 0")
         (auto simp: job_inv_def disk_inv_def job_step_def catch_block_def finally_block_def input_path_nonempty
            put_file_def job_result_def input_written_def output_encoded_def output_kept_def in_out_distinct Let_def
            split: option.splits)
  qed
next
  case AwaitStat
  with inv dinv step show ?thesis
    by (auto simp: job_inv_def disk_inv_def job_step_def catch_block_def finally_block_def input_path_nonempty
          job_result_def input_written_def output_kept_def fs_stat_def exit_ok_def
          split: option.splits proc_outcome.splits)
next
  case (AwaitUnlink r)
  with inv dinv step show ?thesis
    by (auto simp: job_inv_def disk_inv_def job_step_def fs_unlink_def input_unlinked_def in_out_distinct [symmetric]
          split: option.splits)
next
  case (Settled r)
  with inv dinv step show ?thesis by (auto simp: job_step_def)
qed

lemma disk_inv_frame:
  assumes "disk_inv req fmt mime d0 file e j d"
    and "d' (input_path file e) = d (input_path file e)"
    and "d' (output_path fmt e) = d (output_path fmt e)"
  shows "disk_inv req fmt mime d0 file e j d'"
  using assms by (auto simp: disk_inv_def split: wait.splits)

section \<open>Runs of a batch\<close>

lemma start_job_eq:
  "start_job fmt i file e w =
     (\<lparr>inputFilePath = input_path file e, outputFilePath = output_path fmt e, wait = AwaitWrite\<rparr>,
      w\<lparr>calls := calls w @ [(i, WriteFile (input_path file e) (buffer file))]\<rparr>)"
  by (simp add: start_job_def input_path_def output_path_def Let_def)

lemma start_jobs_length: "start_jobs fmt envs n fs w = (js, w') \<Longrightarrow> length js = length fs"
  by (induction fs arbitrary: n w js w') (auto simp: start_job_eq split: prod.splits)

lemma start_jobs_disk: "start_jobs fmt envs n fs w = (js, w') \<Longrightarrow> disk w' = disk w"
  by (induction fs arbitrary: n w js w') (auto simp: start_job_eq split: prod.splits)

lemma start_jobs_nth:
  "start_jobs fmt envs n fs w = (js, w') \<Longrightarrow> i < length fs \<Longrightarrow>
   js ! i = \<lparr>inputFilePath = input_path (fs ! i) (envs (n + i)),
             outputFilePath = output_path fmt (envs (n + i)), wait = AwaitWrite\<rparr>"
proof (induction fs arbitrary: n w js w' i)
  case Nil
  then show ?case by simp
next
  case (Cons f fs)
  then show ?case
    by (cases i) (auto simp: start_job_eq split: prod.splits)
qed

lemma start_jobs_calls:
  "start_jobs fmt envs n fs w = (js, w') \<Longrightarrow>
   calls_of k w' = calls_of k w @
     (if n \<le> k \<and> k < n + length fs then [WriteFile (input_path (fs ! (k - n)) (envs k)) (buffer (fs ! (k - n)))] else [])"
proof (induction fs arbitrary: n w js w')
  case Nil
  then show ?case by simp
next
  case (Cons f fs)
  obtain js1 w1 where rest: "start_jobs fmt envs (Suc n) fs (snd (start_job fmt n f (envs n) w)) = (js1, w1)"
    by (cases "start_jobs fmt envs (Suc n) fs (snd (start_job fmt n f (envs n) w))") auto
  with Cons.prems have w': "w' = w1"
    by (auto split: prod.splits)
  have "calls_of k w1 = calls_of k (snd (start_job fmt n f (envs n) w)) @
     (if Suc n \<le> k \<and> k < Suc n + length fs then [WriteFile (input_path (fs ! (k - Suc n)) (envs k)) (buffer (fs ! (k - Suc n)))] else [])"
    using Cons.IH [OF rest] .
  then show ?case
    unfolding w'
    by (auto simp: start_job_eq calls_of_def Suc_diff_le nth_Cons')
qed

lemma start_jobs_inv:
  assumes "start_jobs fmt envs 0 fs w0 = (js, w)"
  shows "batch_inv req fmt mime w0 fs envs js w"
  unfolding batch_inv_def job_inv_def
  using start_jobs_length [OF assms] start_jobs_nth [OF assms] start_jobs_calls [OF assms]
  by (auto simp: made_calls_def all_calls_def)

lemma start_jobs_disk_inv:
  assumes "start_jobs fmt envs 0 fs w0 = (js, w)" "i < length fs"
  shows "disk_inv req fmt mime (disk w0) (fs ! i) (envs i) (js ! i) (disk w)"
  using start_jobs_nth [OF assms] start_jobs_disk [OF assms(1)]
  by (simp add: disk_inv_def)

lemma start_jobs_output_path:
  assumes "j \<in> set (fst (start_jobs fmt envs n fs w))"
  shows "\<exists>i < length fs. outputFilePath j = output_path fmt (envs (n + i))"
proof -
  obtain js w1 where st: "start_jobs fmt envs n fs w = (js, w1)"
    by (cases "start_jobs fmt envs n fs w") auto
  with assms obtain i where i: "i < length js" "j = js ! i"
    by (auto simp: in_set_conv_nth)
  with start_jobs_length [OF st] start_jobs_nth [OF st, of i] show ?thesis
    by auto
qed

lemma run_schedule_inv:
  "batch_inv req fmt mime w0 fs envs js w \<Longrightarrow>
   run_schedule req fmt mime fs envs sched (js, w) = (js', w') \<Longrightarrow>
   batch_inv req fmt mime w0 fs envs js' w'"
proof (induction sched arbitrary: js w)
  case Nil
  then show ?case by simp
next
  case (Cons i sched)
  show ?case
  proof (cases "i < length js \<and> i < length fs")
    case False
    with Cons show ?thesis by auto
  next
    case True
    obtain j1 w1 where step: "job_step req fmt mime i (fs ! i) (envs i) (js ! i) w = (j1, w1)"
      by (cases "job_step req fmt mime i (fs ! i) (envs i) (js ! i) w") auto
    have len: "length js = length fs"
      using Cons.prems(1) by (simp add: batch_inv_def)
    have "batch_inv req fmt mime w0 fs envs (js[i := j1]) w1"
      unfolding batch_inv_def
    proof (intro conjI allI impI)
      show "length (js[i := j1]) = length fs" using len by simp
    next
      fix k assume k: "k < length fs"
      have invk: "job_inv req fmt mime w0 k (fs ! k) (envs k) (js ! k) w"
        using Cons.prems(1) k by (simp add: batch_inv_def)
      show "job_inv req fmt mime w0 k (fs ! k) (envs k) (js[i := j1] ! k) w1"
      proof (cases "k = i")
        case True
        with invk step k len show ?thesis
          by (simp add: job_step_inv)
      next
        case False
        with invk job_step_other [OF step False] k len show ?thesis
          by (simp add: job_inv_def)
      qed
    qed
    moreover have "run_schedule req fmt mime fs envs sched (js[i := j1], w1) = (js', w')"
      using Cons.prems(2) True step by simp
    ultimately show ?thesis by (rule Cons.IH)
  qed
qed

lemma run_schedule_remaining:
  "run_schedule req fmt mime fs envs sched (js, w) = (js', w') \<Longrightarrow> length js = length fs \<Longrightarrow> i < length fs \<Longrightarrow>
   remaining (wait (js' ! i)) \<le> remaining (wait (js ! i)) - count_list sched i"
proof (induction sched arbitrary: js w)
  case Nil
  then show ?case by simp
next
  case (Cons k sched)
  show ?case
  proof (cases "k < length js \<and> k < length fs")
    case False
    with Cons.prems have "run_schedule req fmt mime fs envs sched (js, w) = (js', w')" "k \<noteq> i"
      by auto
    with Cons.IH [OF this(1) Cons.prems(2,3)] show ?thesis by simp
  next
    case True
    obtain j1 w1 where step: "job_step req fmt mime k (fs ! k) (envs k) (js ! k) w = (j1, w1)"
      by (cases "job_step req fmt mime k (fs ! k) (envs k) (js ! k) w") auto
    have run: "run_schedule req fmt mime fs envs sched (js[k := j1], w1) = (js', w')"
      using Cons.prems(1) True step by simp
    have ih: "remaining (wait (js' ! i)) \<le> remaining (wait (js[k := j1] ! i)) - count_list sched i"
      using Cons.IH [OF run] Cons.prems(2,3) by simp
    show ?thesis
    proof (cases "k = i")
      case True
      with ih job_step_remaining [OF step] Cons.prems(2,3) show ?thesis by simp
    next
      case False
      with ih show ?thesis by simp
    qed
  qed
qed

lemma run_schedule_disk_inv:
  assumes fresh: "fresh_uuids envs (length fs)"
    and plain: "CHR ''/'' \<notin> set (toLowerCase fmt)"
  shows "batch_inv req fmt mime w0 fs envs js w \<Longrightarrow>
   \<forall>i < length fs. disk_inv req fmt mime d0 (fs ! i) (envs i) (js ! i) (disk w) \<Longrightarrow>
   run_schedule req fmt mime fs envs sched (js, w) = (js', w') \<Longrightarrow>
   \<forall>i < length fs. disk_inv req fmt mime d0 (fs ! i) (envs i) (js' ! i) (disk w')"
proof (induction sched arbitrary: js w)
  case Nil
  then show ?case by simp
next
  case (Cons k sched)
  show ?case
  proof (cases "k < length js \<and> k < length fs")
    case False
    with Cons show ?thesis by auto
  next
    case True
    obtain j1 w1 where step: "job_step req fmt mime k (fs ! k) (envs k) (js ! k) w = (j1, w1)"
      by (cases "job_step req fmt mime k (fs ! k) (envs k) (js ! k) w") auto
    have len: "length js = length fs"
      using Cons.prems(1) by (simp add: batch_inv_def)
    have invk: "job_inv req fmt mime w0 k (fs ! k) (envs k) (js ! k) w"
      using Cons.prems(1) True by (simp add: batch_inv_def)
    have run1: "run_schedule req fmt mime fs envs [k] (js, w) = (js[k := j1], w1)"
      using True step by simp
    have binv: "batch_inv req fmt mime w0 fs envs (js[k := j1]) w1"
      using run_schedule_inv [OF Cons.prems(1) run1] .
    have "\<forall>i < length fs. disk_inv req fmt mime d0 (fs ! i) (envs i) (js[k := j1] ! i) (disk w1)"
    proof (intro allI impI)
      fix i assume i: "i < length fs"
      have dinv: "disk_inv req fmt mime d0 (fs ! i) (envs i) (js ! i) (disk w)"
        using Cons.prems(2) i by simp
      show "disk_inv req fmt mime d0 (fs ! i) (envs i) (js[k := j1] ! i) (disk w1)"
      proof (cases "i = k")
        case True
        with dinv invk step i len in_out_distinct [OF plain] show ?thesis
          by (simp add: job_step_disk_inv)
      next
        case False
        have paths: "inputFilePath (js ! k) = input_path (fs ! k) (envs k)"
          "outputFilePath (js ! k) = output_path fmt (envs k)"
          using invk by (simp_all add: job_inv_def)
        note u = fresh_uuidsD [OF fresh i _ False]
        have k: "k < length fs" using True by simp
        have "disk w1 (input_path (fs ! i) (envs i)) = disk w (input_path (fs ! i) (envs i))"
          by (rule job_step_disk_frame [OF step]) (simp_all add: paths paths_distinct [OF u(1) [OF k] u(2) [OF k] u(3) [OF k] plain])
        moreover have "disk w1 (output_path fmt (envs i)) = disk w (output_path fmt (envs i))"
          by (rule job_step_disk_frame [OF step]) (simp_all add: paths paths_distinct [OF u(1) [OF k] u(2) [OF k] u(3) [OF k] plain])
        ultimately have "disk_inv req fmt mime d0 (fs ! i) (envs i) (js ! i) (disk w1)"
          using dinv by (rule disk_inv_frame [rotated])
        with False show ?thesis by simp
      qed
    qed
    moreover have "run_schedule req fmt mime fs envs sched (js[k := j1], w1) = (js', w')"
      using Cons.prems(3) True step by simp
    ultimately show ?thesis using Cons.IH binv by blast
  qed
qed

lemma those_eq_Some: "those xs = Some ys \<longleftrightarrow> xs = map Some ys"
proof (induction xs arbitrary: ys)
  case Nil
  then show ?case by auto
next
  case (Cons x xs)
  then show ?case by (cases x; cases ys) auto
qed

lemma settled_eq_Some: "settled j = Some r \<longleftrightarrow> wait j = Settled r"
  by (cases "wait j") auto

lemma promise_all_Some:
  "promise_all js = Some rs \<longleftrightarrow> length rs = length js \<and> (\<forall>i < length js. wait (js ! i) = Settled (rs ! i))"
  unfolding promise_all_def those_eq_Some list_eq_iff_nth_eq
  by (auto simp: settled_eq_Some simp del: settled.simps)

lemma promise_all_None:
  "promise_all js = None \<longleftrightarrow> (\<exists>i < length js. \<forall>r. wait (js ! i) \<noteq> Settled r)"
proof -
  have "promise_all js = None \<longleftrightarrow> \<not> (\<exists>rs. promise_all js = Some rs)"
    by (cases "promise_all js") auto
  also have "\<dots> \<longleftrightarrow> (\<exists>i < length js. \<forall>r. wait (js ! i) \<noteq> Settled r)"
  proof
    assume none: "\<not> (\<exists>rs. promise_all js = Some rs)"
    show "\<exists>i < length js. \<forall>r. wait (js ! i) \<noteq> Settled r"
    proof (rule ccontr)
      assume "\<not> (\<exists>i < length js. \<forall>r. wait (js ! i) \<noteq> Settled r)"
      then have all: "\<forall>i < length js. \<exists>r. wait (js ! i) = Settled r" by blast
      define rs where "rs = map (\<lambda>j. case wait j of Settled r \<Rightarrow> r | _ \<Rightarrow> JBool False) js"
      have "promise_all js = Some rs"
        unfolding promise_all_Some rs_def using all by (auto split: wait.splits)
      with none show False by blast
    qed
  next
    assume "\<exists>i < length js. \<forall>r. wait (js ! i) \<noteq> Settled r"
    then show "\<not> (\<exists>rs. promise_all js = Some rs)"
      unfolding promise_all_Some by auto
  qed
  finally show ?thesis .
qed

section \<open>The handler of the video route\<close>

lemma allowed_iff:
  "allowedVideoFormats x = Some m \<longleftrightarrow>
     (x = ''mp4'' \<and> m = ''video/mp4'') \<or> (x = ''webm'' \<and> m = ''video/webm'')"
  by (auto simp: allowedVideoFormats_def)

lemma validate_accepts:
  assumes "files req = Some fs" "fs \<noteq> []" "format req = Some fmt"
    and "allowedVideoFormats (toLowerCase fmt) = Some mime"
  shows "validate req = Inr (fs, fmt, mime)"
proof -
  from assms(4) have "fmt \<noteq> []" "mime \<noteq> []"
    by (auto simp: allowed_iff toLowerCase_def)
  with assms show ?thesis by (simp add: validate_def)
qed

lemma validate_allowed:
  assumes "validate req = Inr (fs, fmt, mime)"
  shows "allowedVideoFormats (toLowerCase fmt) = Some mime"
  using assms by (simp add: validate_def split: option.splits if_splits)

lemma allowed_slash_free:
  assumes "allowedVideoFormats (toLowerCase fmt) = Some mime"
  shows "CHR ''/'' \<notin> set (toLowerCase fmt)"
  using assms by (auto simp: allowed_iff)

lemma convert_video_accepted:
  assumes "validate req = Inr (fs, fmt, mime)"
  obtains js w1 where
    "run_schedule req fmt mime fs envs sched (start_jobs fmt envs 0 fs w) = (js, w1)"
    "convert_video req envs sched w =
       (case promise_all js of None \<Rightarrow> None | Some rs \<Rightarrow> Some (Responded (batch_response rs), w1))"
    "batch_inv req fmt mime w fs envs js w1"
    "\<forall>i < length fs. remaining (wait (js ! i)) \<le> 4 - count_list sched i"
    "fresh_uuids envs (length fs) \<Longrightarrow>
       \<forall>i < length fs. disk_inv req fmt mime (disk w) (fs ! i) (envs i) (js ! i) (disk w1)"
proof -
  obtain js0 w0 where start: "start_jobs fmt envs 0 fs w = (js0, w0)"
    by (cases "start_jobs fmt envs 0 fs w") auto
  obtain js w1 where run: "run_schedule req fmt mime fs envs sched (js0, w0) = (js, w1)"
    by (cases "run_schedule req fmt mime fs envs sched (js0, w0)") auto
  have inv0: "batch_inv req fmt mime w fs envs js0 w0"
    using start by (rule start_jobs_inv)
  have 1: "run_schedule req fmt mime fs envs sched (start_jobs fmt envs 0 fs w) = (js, w1)"
    using start run by simp
  have 2: "convert_video req envs sched w =
       (case promise_all js of None \<Rightarrow> None | Some rs \<Rightarrow> Some (Responded (batch_response rs), w1))"
    using assms 1 by (simp add: convert_video_def)
  have 3: "batch_inv req fmt mime w fs envs js w1"
    using inv0 run by (rule run_schedule_inv)
  have 4: "\<forall>i < length fs. remaining (wait (js ! i)) \<le> 4 - count_list sched i"
  proof (intro allI impI)
    fix i assume i: "i < length fs"
    have "remaining (wait (js ! i)) \<le> remaining (wait (js0 ! i)) - count_list sched i"
      using run start_jobs_length [OF start] i by (rule run_schedule_remaining)
    then show "remaining (wait (js ! i)) \<le> 4 - count_list sched i"
      using start_jobs_nth [OF start i] by simp
  qed
  have 5: "\<forall>i < length fs. disk_inv req fmt mime (disk w) (fs ! i) (envs i) (js ! i) (disk w1)"
    if "fresh_uuids envs (length fs)"
    using that allowed_slash_free [OF validate_allowed [OF assms]] inv0 _ run
  proof (rule run_schedule_disk_inv)
    show "\<forall>i < length fs. disk_inv req fmt mime (disk w) (fs ! i) (envs i) (js0 ! i) (disk w0)"
      using start by (simp add: start_jobs_disk_inv)
  qed
  from 1 2 3 4 5 show thesis by (rule that)
qed

text \<open>What is known of a batch that was accepted and has answered.\<close>

lemma convert_video_responded:
  assumes "validate req = Inr (fs, fmt, mime)" "convert_video req envs sched w = Some (out, w')"
  shows "\<exists>rs. out = Responded (batch_response rs) \<and> length rs = length fs \<and>
    (\<forall>i < length fs.
       result_ok req fmt mime (fs ! i) (envs i) (rs ! i) \<and>
       calls_of i w' = calls_of i w @ all_calls fmt (fs ! i) (envs i) \<and>
       (fresh_uuids envs (length fs) \<longrightarrow>
          rs ! i = job_result req fmt mime (fs ! i) (envs i) (disk w) \<and>
          disk w' (output_path fmt (envs i)) = output_kept fmt (envs i) (disk w) \<and>
          disk w' (input_path (fs ! i) (envs i)) = input_unlinked (fs ! i) (envs i) (disk w)))"
proof -
  from assms(1) obtain js w1 where
    conv: "convert_video req envs sched w =
       (case promise_all js of None \<Rightarrow> None | Some rs \<Rightarrow> Some (Responded (batch_response rs), w1))"
    and inv: "batch_inv req fmt mime w fs envs js w1"
    and dinv: "fresh_uuids envs (length fs) \<Longrightarrow>
       \<forall>i < length fs. disk_inv req fmt mime (disk w) (fs ! i) (envs i) (js ! i) (disk w1)"
    by (rule convert_video_accepted [where envs = envs and sched = sched and w = w]) blast
  from conv assms(2) obtain rs where rs: "promise_all js = Some rs"
    and out: "out = Responded (batch_response rs)" and w': "w' = w1"
    by (auto split: option.splits)
  from inv have len: "length js = length fs" by (simp add: batch_inv_def)
  from rs have lrs: "length rs = length js" and st: "\<And>i. i < length js \<Longrightarrow> wait (js ! i) = Settled (rs ! i)"
    by (simp_all add: promise_all_Some)
  have "result_ok req fmt mime (fs ! i) (envs i) (rs ! i) \<and>
       calls_of i w' = calls_of i w @ all_calls fmt (fs ! i) (envs i) \<and>
       (fresh_uuids envs (length fs) \<longrightarrow>
          rs ! i = job_result req fmt mime (fs ! i) (envs i) (disk w) \<and>
          disk w' (output_path fmt (envs i)) = output_kept fmt (envs i) (disk w) \<and>
          disk w' (input_path (fs ! i) (envs i)) = input_unlinked (fs ! i) (envs i) (disk w))"
    if i: "i < length fs" for i
  proof -
    from i have "job_inv req fmt mime w i (fs ! i) (envs i) (js ! i) w1"
      using inv by (simp add: batch_inv_def)
    with st [of i] i len
    have a: "result_ok req fmt mime (fs ! i) (envs i) (rs ! i)"
      and b: "calls_of i w' = calls_of i w @ all_calls fmt (fs ! i) (envs i)"
      by (simp_all add: job_inv_def made_calls_def w')
    have c: "rs ! i = job_result req fmt mime (fs ! i) (envs i) (disk w) \<and>
       disk w' (output_path fmt (envs i)) = output_kept fmt (envs i) (disk w) \<and>
       disk w' (input_path (fs ! i) (envs i)) = input_unlinked (fs ! i) (envs i) (disk w)"
      if "fresh_uuids envs (length fs)"
    proof -
      from that i have "disk_inv req fmt mime (disk w) (fs ! i) (envs i) (js ! i) (disk w1)"
        using dinv by simp
      with st [of i] i len show ?thesis
        by (simp add: disk_inv_def w')
    qed
    from a b c show ?thesis by blast
  qed
  with out lrs len show ?thesis by auto
qed

lemma convert_video_answers:
  assumes "validate req = Inr (fs, fmt, mime)" "\<forall>i < length fs. 4 \<le> count_list sched i"
  shows "\<exists>out w'. convert_video req envs sched w = Some (out, w')"
proof -
  from assms(1) obtain js w1 where
    conv: "convert_video req envs sched w =
       (case promise_all js of None \<Rightarrow> None | Some rs \<Rightarrow> Some (Responded (batch_response rs), w1))"
    and inv: "batch_inv req fmt mime w fs envs js w1"
    and rem: "\<forall>i < length fs. remaining (wait (js ! i)) \<le> 4 - count_list sched i"
    by (rule convert_video_accepted [where envs = envs and sched = sched and w = w]) blast
  from inv have len: "length js = length fs" by (simp add: batch_inv_def)
  have "promise_all js \<noteq> None"
    unfolding promise_all_None
  proof (intro notI, elim exE conjE)
    fix i assume i: "i < length js" and ns: "\<forall>r. wait (js ! i) \<noteq> Settled r"
    from rem assms(2) i len have "remaining (wait (js ! i)) = 0" by auto
    with ns show False by (cases "wait (js ! i)") auto
  qed
  with conv show ?thesis by (auto split: option.splits)
qed

text \<open>
  A format that is present but not allowed is answered with the 400 of the handler, before
  any job starts: the world is handed back as it was.
\<close>

lemma unknown_format_rejected:
  assumes "files req = Some fs" "fs \<noteq> []" "format req = Some fmt"
    and "allowedVideoFormats (toLowerCase fmt) = None"
  shows "convert_video req envs sched w =
    Some (Responded \<lparr>status = 400, headers = [],
            body = Json (JObject [(''error'', JString
              ''Invalid or missing target video format. Supported formats: mp4, webm.'')])\<rparr>, w)"
  using assms by (simp add: convert_video_def validate_def)

text \<open>
  For the format sent as \<^verbatim>\<open>webm\<close> the codec is \<^verbatim>\<open>libvpx\<close>, and for every other
  format it is \<^verbatim>\<open>libx264\<close>; the rest of the argument list is fixed.
\<close>

lemma ffmpegArgs_shape:
  "ffmpegArgs fmt inp outp =
     [''-i'', inp, ''-c:v'', (if fmt = ''webm'' then ''libvpx'' else ''libx264''),
      ''-preset'', ''veryfast'', ''-crf'', ''28'', ''-threads'', ''0'', ''-y'', outp]"
  by (simp add: ffmpegArgs_def)

section \<open>The objects a job returns\<close>

lemma result_ok_originalName:
  "result_ok req fmt mime file e r \<Longrightarrow> field r ''originalName'' = Some (JString (originalname file))"
  by (auto simp: result_ok_def failure_result_def success_result_def
      split: write_outcome.splits proc_outcome.splits option.splits if_splits)

lemma result_ok_cases:
  assumes "result_ok req fmt mime file e r"
  shows "(\<forall>m p. on_write e = WriteFailed m p \<longrightarrow> r = failure_result file m) \<and>
    (\<forall>m. on_write e = WriteOk \<and> on_ffmpeg e = SpawnError m \<longrightarrow>
       r = failure_result file (''Failed to start FFmpeg: '' @ m)) \<and>
    (\<forall>code err written. on_write e = WriteOk \<and> on_ffmpeg e = Closed code err written \<and> code \<noteq> Some 0 \<longrightarrow>
       r = failure_result file
             (''FFmpeg conversion failed: '' @ (if err = [] then ''Unknown FFmpeg error'' else err))) \<and>
    (\<forall>m. on_write e = WriteOk \<and> exit_ok e \<and> stat_fault e = Some m \<longrightarrow> r = failure_result file m) \<and>
    ((\<exists>m. r = failure_result file m) \<or>
     (\<exists>sz. r = success_result req file (output_path fmt e) mime sz))"
  using assms
  by (auto simp: result_ok_def exit_ok_def split: write_outcome.splits proc_outcome.splits option.splits if_splits)

lemma keys_results:
  "keys (success_result req file outp mime sz) = [''originalName'', ''newName'', ''mimeType'', ''downloadUrl'', ''size'']"
  "keys (failure_result file m) = [''originalName'', ''newName'', ''mimeType'', ''downloadUrl'', ''error'']"
  by (simp_all add: success_result_def failure_result_def)

lemma fields_success:
  "field (success_result req file outp mime sz) ''mimeType'' = Some (JString mime)"
  "field (success_result req file outp mime sz) ''size'' = Some (JNumber sz)"
  "field (success_result req file outp mime sz) ''error'' = None"
  by (simp_all add: success_result_def)

lemma fields_failure:
  "field (failure_result file m) ''mimeType'' = Some (JString ''application/octet-stream'')"
  "field (failure_result file m) ''downloadUrl'' = Some (JString ''#'')"
  "field (failure_result file m) ''error'' =
     Some (JString (''Failed to convert: '' @ (if m = [] then ''Unknown error'' else m)))"
  "field (failure_result file m) ''size'' = None"
  by (simp_all add: failure_result_def)

lemma success_not_failure: "success_result req file outp mime sz \<noteq> failure_result file' m"
  by (simp add: success_result_def failure_result_def)

lemma success_result_inject:
  "success_result req file outp mime sz = success_result req file outp mime sz' \<longleftrightarrow> sz = sz'"
  by (simp add: success_result_def)

lemma result_ok_mimeType:
  "result_ok req fmt mime file e r \<Longrightarrow>
   (field r ''size'' \<noteq> None \<and> field r ''mimeType'' = Some (JString mime)) \<or>
   (field r ''size'' = None \<and> field r ''mimeType'' = Some (JString ''application/octet-stream''))"
proof -
  assume "result_ok req fmt mime file e r"
  from result_ok_cases [OF this]
  consider m where "r = failure_result file m"
    | sz where "r = success_result req file (output_path fmt e) mime sz"
    by blast
  then show ?thesis
    by cases (simp_all add: fields_success fields_failure)
qed

lemma job_result_success:
  assumes "job_result req fmt mime file e d0 = success_result req file (output_path fmt e) mime sz"
  shows "on_write e = WriteOk \<and> exit_ok e \<and> stat_fault e = None \<and>
    (\<exists>b. output_kept fmt e d0 = Some b \<and> length b = sz)"
  using assms
  by (auto simp: job_result_def exit_ok_def output_kept_def success_not_failure [symmetric] success_result_inject
      split: write_outcome.splits proc_outcome.splits option.splits if_splits)

lemma job_result_exit_ok:
  assumes "on_write e = WriteOk" "on_ffmpeg e = Closed (Some 0) err written"
  shows "job_result req fmt mime file e d0 =
    (case fs_stat (\<lambda>p. case written of None \<Rightarrow> d0 p | Some b \<Rightarrow> Some b) (stat_fault e) (output_path fmt e) of
       Inl message \<Rightarrow> failure_result file message
     | Inr sz \<Rightarrow> success_result req file (output_path fmt e) mime sz)"
  using assms
  by (simp add: job_result_def fs_stat_def output_encoded_def split: option.splits)

lemma all_calls_exit_ok:
  assumes "on_write e = WriteOk" "on_ffmpeg e = Closed (Some 0) err written"
  shows "all_calls fmt file e =
    [WriteFile (input_path file e) (buffer file),
     Spawn ''ffmpeg'' (ffmpegArgs fmt (input_path file e) (output_path fmt e)),
     Stat (output_path fmt e),
     Unlink (input_path file e)]"
  using assms by (simp add: all_calls_def exit_ok_def)

lemma unlinks_of_all_calls:
  "filter is_unlink (all_calls fmt file e) = [Unlink (input_path file e)]"
  by (simp add: all_calls_def)

lemma last_all_calls: "last (all_calls fmt file e) = Unlink (input_path file e)"
  by (simp add: all_calls_def)

lemma input_unlinked_None:
  "input_unlinked file e d0 = None \<longleftrightarrow> input_written file e d0 = None \<or> unlink_fault e = None"
  by (auto simp: input_unlinked_def split: option.splits)

lemma batch_response_inject: "batch_response rs = batch_response rs' \<longleftrightarrow> rs = rs'"
  by (simp add: batch_response_def)



section \<open>The example runs\<close>

text \<open>The names of the example files are ordinary segments.\<close>

lemma example_joined:
  "path_join ''/tmp'' ''123e4567-e89b-42d3-a456-426614174000_input.mov'' = ''/tmp/123e4567-e89b-42d3-a456-426614174000_input.mov''"
  "path_join ''/tmp'' ''123e4567-e89b-42d3-a456-426614174000_output.webm'' = ''/tmp/123e4567-e89b-42d3-a456-426614174000_output.webm''"
  "path_join ''/tmp'' ''123e4567-e89b-42d3-a456-426614174000_output.mp4'' = ''/tmp/123e4567-e89b-42d3-a456-426614174000_output.mp4''"
  "path_join ''/tmp'' ''9b2e0c1a-7f3d-4c55-8e21-0a1b2c3d4e5f_input.avi'' = ''/tmp/9b2e0c1a-7f3d-4c55-8e21-0a1b2c3d4e5f_input.avi''"
  "path_join ''/tmp'' ''9b2e0c1a-7f3d-4c55-8e21-0a1b2c3d4e5f_output.webm'' = ''/tmp/9b2e0c1a-7f3d-4c55-8e21-0a1b2c3d4e5f_output.webm''"
  "path_join ''/tmp'' ''9b2e0c1a-7f3d-4c55-8e21-0a1b2c3d4e5f_input.mov'' = ''/tmp/9b2e0c1a-7f3d-4c55-8e21-0a1b2c3d4e5f_input.mov''"
  "path_join ''/tmp'' ''9b2e0c1a-7f3d-4c55-8e21-0a1b2c3d4e5f_output.mp4'' = ''/tmp/9b2e0c1a-7f3d-4c55-8e21-0a1b2c3d4e5f_output.mp4''"
  "path_join ''/tmp'' ''0f8fad5b-d9cb-469f-a165-70867728950e_input.mov'' = ''/tmp/0f8fad5b-d9cb-469f-a165-70867728950e_input.mov''"
  "path_join ''/tmp'' ''0f8fad5b-d9cb-469f-a165-70867728950e_output.mp4'' = ''/tmp/0f8fad5b-d9cb-469f-a165-70867728950e_output.mp4''"
  "path_join ''/tmp'' ''7c9e6679-7425-40de-944b-e07fc1f90ae7_input.mov'' = ''/tmp/7c9e6679-7425-40de-944b-e07fc1f90ae7_input.mov''"
  "path_join ''/tmp'' ''7c9e6679-7425-40de-944b-e07fc1f90ae7_output.mp4'' = ''/tmp/7c9e6679-7425-40de-944b-e07fc1f90ae7_output.mp4''"
  "path_join ''/tmp'' ''3f2504e0-4f89-41d3-9a0c-0305e82c3301_input.mov'' = ''/tmp/3f2504e0-4f89-41d3-9a0c-0305e82c3301_input.mov''"
  "path_join ''/tmp'' ''3f2504e0-4f89-41d3-9a0c-0305e82c3301_output.mp4'' = ''/tmp/3f2504e0-4f89-41d3-9a0c-0305e82c3301_output.mp4''"
  "path_join ''/tmp'' ''6fa459ea-ee8a-4ca4-894e-db77e160355e_input.avi'' = ''/tmp/6fa459ea-ee8a-4ca4-894e-db77e160355e_input.avi''"
  "path_join ''/tmp'' ''6fa459ea-ee8a-4ca4-894e-db77e160355e_output.mp4'' = ''/tmp/6fa459ea-ee8a-4ca4-894e-db77e160355e_output.mp4''"
  "path_join ''/tmp'' ''16fd2706-8baf-433b-82eb-8c7fada847da_input.avi'' = ''/tmp/16fd2706-8baf-433b-82eb-8c7fada847da_input.avi''"
  "path_join ''/tmp'' ''16fd2706-8baf-433b-82eb-8c7fada847da_output.mp4'' = ''/tmp/16fd2706-8baf-433b-82eb-8c7fada847da_output.mp4''"
  by (simp_all add: path_join_plain)

lemmas model_defs = convert_video_def validate_def allowedVideoFormats_def toLowerCase_def lower_char_def
     start_job_def job_step_def example_joined extname_def last_component_def promise_all_def finally_block_def catch_block_def
     put_file_def fs_stat_def fs_unlink_def success_result_def failure_result_def downloadUrl_def basename_def ffmpegArgs_def
     enoent_def Let_def

lemmas example_defs = example_request_def example_envs_def example_schedule_def empty_world_def clip_a_def clip_b_def env_a_def env_b_def
  single_request_def env_no_output_def env_unlink_refused_def
  env_write_fails_def env_spawn_fails_def env_stat_fails_def failing_envs_def failing_request_def
  failing_schedule_def

lemma example_run:
  "map_option fst (convert_video example_request example_envs example_schedule empty_world) =
     Some (Responded (batch_response
       [success_result example_request clip_a ''/tmp/123e4567-e89b-42d3-a456-426614174000_output.webm'' ''video/webm'' (length ''webm-bytes''),
        failure_result clip_b ''FFmpeg conversion failed: Invalid data found when processing input'']))"
  by (simp add: model_defs example_defs)

lemma example_fresh: "fresh_uuids example_envs 2"
  by (simp add: fresh_uuids_def is_uuid_def example_defs upt_rec)

lemma example_paths:
  "output_path ''webm'' (example_envs 0) = ''/tmp/123e4567-e89b-42d3-a456-426614174000_output.webm''"
  "input_path clip_a (example_envs 0) = ''/tmp/123e4567-e89b-42d3-a456-426614174000_input.mov''"
  "input_path clip_b (example_envs 1) = ''/tmp/9b2e0c1a-7f3d-4c55-8e21-0a1b2c3d4e5f_input.avi''"
  by (simp_all add: output_path_def input_path_def example_joined example_defs toLowerCase_def lower_char_def
      extname_def last_component_def Let_def)

lemma example_uuid: "is_uuid ''123e4567-e89b-42d3-a456-426614174000''"
  by (simp add: is_uuid_def)

lemma no_output_run:
  "map_option fst (convert_video single_request (\<lambda>i. env_no_output) [0, 0, 0, 0] empty_world) =
     Some (Responded (batch_response
       [failure_result clip_a
          (enoent ''stat'' ''/tmp/0f8fad5b-d9cb-469f-a165-70867728950e_output.mp4'')]))"
  by (simp add: model_defs example_defs)

lemma unlink_refused_run:
  "(case convert_video single_request (\<lambda>i. env_unlink_refused) [0, 0, 0, 0] empty_world of
      None \<Rightarrow> None
    | Some (out, w') \<Rightarrow>
        Some (out, calls w',
              disk w' ''/tmp/7c9e6679-7425-40de-944b-e07fc1f90ae7_input.mov'',
              disk w' ''/tmp/7c9e6679-7425-40de-944b-e07fc1f90ae7_output.mp4'')) =
   Some (Responded (batch_response
           [success_result single_request clip_a ''/tmp/7c9e6679-7425-40de-944b-e07fc1f90ae7_output.mp4''
              ''video/mp4'' (length ''mp4-bytes'')]),
         [(0, WriteFile ''/tmp/7c9e6679-7425-40de-944b-e07fc1f90ae7_input.mov'' ''AAAA''),
          (0, Spawn ''ffmpeg''
             [''-i'', ''/tmp/7c9e6679-7425-40de-944b-e07fc1f90ae7_input.mov'', ''-c:v'', ''libx264'',
              ''-preset'', ''veryfast'', ''-crf'', ''28'', ''-threads'', ''0'', ''-y'',
              ''/tmp/7c9e6679-7425-40de-944b-e07fc1f90ae7_output.mp4'']),
          (0, Stat ''/tmp/7c9e6679-7425-40de-944b-e07fc1f90ae7_output.mp4''),
          (0, Unlink ''/tmp/7c9e6679-7425-40de-944b-e07fc1f90ae7_input.mov'')],
         Some ''AAAA'', Some ''mp4-bytes'')"
  by (simp add: model_defs example_defs)

lemma upper_case_run:
  "map_option fst (convert_video (single_request\<lparr>format := Some ''MP4''\<rparr>) example_envs [0, 0, 0, 0] empty_world) =
     Some (Responded (batch_response
       [success_result (single_request\<lparr>format := Some ''MP4''\<rparr>) clip_a
          ''/tmp/123e4567-e89b-42d3-a456-426614174000_output.mp4'' ''video/mp4'' (length ''webm-bytes'')]))"
  by (simp add: model_defs example_defs)

lemma failing_run:
  "map_option fst (convert_video failing_request failing_envs failing_schedule empty_world) =
     Some (Responded (batch_response
       [failure_result clip_a ''ENOSPC: no space left on device, write'',
        failure_result clip_b ''Failed to start FFmpeg: spawn ffmpeg ENOENT'',
        failure_result clip_a ''FFmpeg conversion failed: Invalid data found when processing input'',
        failure_result clip_b ''EACCES: permission denied, stat'']))"
  by (simp add: model_defs example_defs)

section \<open>The handler of the delivery route\<close>

lemma header_char_uuid: "c \<in> set ''0123456789abcdef-'' \<Longrightarrow> header_char c"
  by (auto simp: header_char_def)

lemma header_char_examples: "list_all header_char ''attachment; filename=''" "header_char (CHR 0x22)"
  "list_all header_char ''_output.mp4''" "list_all header_char ''_output.webm''"
  by (simp_all add: header_char_def)

lemma last_component_no_slash:
  assumes "CHR ''/'' \<notin> set p"
  shows "last_component p = p"
proof -
  have dw: "dropWhile (\<lambda>c. c = CHR ''/'') (rev p) = rev p"
    using assms by (cases "rev p") auto
  have tw: "takeWhile (\<lambda>c. c \<noteq> CHR ''/'') (rev p) = rev p"
    using assms by (intro takeWhile_eq_all_conv [THEN iffD2]) auto
  show ?thesis
    unfolding last_component_def dw tw by simp
qed

lemma takeWhile_dot_rev:
  assumes "CHR ''.'' \<notin> set ext"
  shows "takeWhile (\<lambda>c. c \<noteq> CHR ''.'') (rev (stem @ CHR ''.'' # ext)) = rev ext"
proof -
  have "takeWhile (\<lambda>c. c \<noteq> CHR ''.'') (rev ext @ CHR ''.'' # rev stem) = takeWhile (\<lambda>c. c \<noteq> CHR ''.'') (rev ext)"
    by (rule takeWhile_tail) simp
  also have "\<dots> = rev ext"
    using assms by (intro takeWhile_eq_all_conv [THEN iffD2]) auto
  finally show ?thesis by simp
qed

lemma extname_stem_ext:
  assumes "CHR ''/'' \<notin> set (stem @ CHR ''.'' # ext)" "CHR ''.'' \<notin> set ext" "stem \<noteq> []" "ext \<noteq> []"
  shows "extname (stem @ CHR ''.'' # ext) = CHR ''.'' # ext"
proof -
  have comp: "last_component (stem @ CHR ''.'' # ext) = stem @ CHR ''.'' # ext"
    using assms(1) by (rule last_component_no_slash)
  have stem: "take (length (stem @ CHR ''.'' # ext) - length ext - 1) (stem @ CHR ''.'' # ext) = stem"
    by simp
  have ne: "stem @ CHR ''.'' # ext \<noteq> ''..''"
    using assms(3,4) by (cases stem; cases ext) auto
  show ?thesis
    unfolding extname_def comp Let_def takeWhile_dot_rev [OF assms(2)] rev_rev_ident stem
    using assms(3) ne by simp
qed

lemma extname_artifact:
  assumes "is_uuid u" "fmt = ''mp4'' \<or> fmt = ''webm''"
  shows "extname (u @ ''_output.'' @ fmt) = ''.'' @ fmt"
proof -
  have eq: "u @ ''_output.'' @ fmt = (u @ ''_output'') @ CHR ''.'' # fmt" by simp
  have "extname ((u @ ''_output'') @ CHR ''.'' # fmt) = CHR ''.'' # fmt"
  proof (rule extname_stem_ext)
    show "CHR ''/'' \<notin> set ((u @ ''_output'') @ CHR ''.'' # fmt)"
      using assms no_slash_uuid [of u] by auto
    show "CHR ''.'' \<notin> set fmt" using assms(2) by auto
    show "u @ ''_output'' \<noteq> []" by simp
    show "fmt \<noteq> []" using assms(2) by auto
  qed
  then show ?thesis unfolding eq by simp
qed

lemma download_video_disk: "snd (download_video filename e d) = d"
  by (simp add: download_video_def Let_def split: sum.splits sent.splits)


text \<open>
  A path that names a directory passes \<^verbatim>\<open>fs.access\<close>, and \<^verbatim>\<open>res.download\<close> then
  fails before anything is sent.
\<close>

lemma download_video_directory:
  assumes "d (path_join ''/tmp'' filename) = None" "path_join ''/tmp'' filename \<in> set (directories e)"
    and "access_fault e = None" "valid_header_value (content_disposition filename)"
  shows "download_video filename e d =
    (Responded \<lparr>status = 404,
       headers = [(''Content-Type'', content_type filename),
                  (''Content-Disposition'', content_disposition filename)],
       body = Text ''File not found or no longer available. It might have been automatically cleaned up by the OS.''\<rparr>, d)"
  using assms
  by (simp add: download_video_def fs_access_def res_download_def Let_def)



lemma download_bad_header:
  assumes "d (path_join ''/tmp'' filename) = Some content"
    and "\<not> valid_header_value (content_disposition filename)"
    and "access_fault e = None"
  shows "download_video filename e d = (Responded not_accessible, d)"
  using assms by (simp add: download_video_def fs_access_def)

lemma valid_disposition:
  assumes "is_uuid u" "fmt = ''mp4'' \<or> fmt = ''webm''"
  shows "valid_header_value (content_disposition (u @ ''_output.'' @ fmt))"
proof -
  from assms(1) have "\<forall>c \<in> set u. c \<in> set ''0123456789abcdef-''"
    by (rule uuid_chars)
  then have "\<forall>c \<in> set u. header_char c"
    using header_char_uuid by blast
  then have u: "list_all header_char u"
    by (simp only: list_all_iff)
  have f: "list_all header_char (''_output.'' @ fmt)"
    using assms(2) header_char_examples(3,4) by auto
  have "list_all header_char (''attachment; filename='' @ [CHR 0x22] @ (u @ ''_output.'' @ fmt) @ [CHR 0x22])"
    using header_char_examples(1,2) u f
    by (simp only: list.pred_inject list_all_append simp_thms)
  then show ?thesis by (simp only: valid_header_value_def content_disposition_def)
qed

lemma content_type_artifact:
  assumes "is_uuid u" "fmt = ''mp4'' \<or> fmt = ''webm''"
  shows "content_type (u @ ''_output.'' @ fmt) = ''video/'' @ fmt"
  unfolding content_type_def extname_artifact [OF assms]
  using assms(2) by (auto simp: toLowerCase_def lower_char_def)

lemma download_artifact:
  assumes "is_uuid u" "fmt = ''mp4'' \<or> fmt = ''webm''"
    and "d (path_join ''/tmp'' (u @ ''_output.'' @ fmt)) = Some content"
    and "access_fault e = None" "on_download e = Delivered"
  shows "download_video (u @ ''_output.'' @ fmt) e d =
    (Responded \<lparr>status = 200,
       headers = [(''Content-Type'', ''video/'' @ fmt),
                  (''Content-Disposition'', content_disposition (u @ ''_output.'' @ fmt))],
       body = File content\<rparr>, d)"
  unfolding download_video_def Let_def content_type_artifact [OF assms(1,2)]
  using assms(3-5) valid_disposition [OF assms(1,2)]
  by (simp add: fs_access_def res_download_def)

section \<open>The claims\<close>

text \<open>
  Claim C1. For a batch of N files with an allowed target format, whatever the order in
  which the jobs' operations complete: once every job has been resumed often enough the
  handler answers, and whenever it answers, the array \<^verbatim>\<open>convertedFiles\<close> has N
  entries and entry \<open>i\<close> carries the original name of file \<open>i\<close>; when the identifiers
  of the batch are fresh, entry \<open>i\<close> is the value job \<open>i\<close> returns when it runs alone, so
  the array does not depend on the schedule.
\<close>

theorem batch_results_in_order:
  assumes "files req = Some fs" "fs \<noteq> []" "format req = Some fmt"
    and "allowedVideoFormats (toLowerCase fmt) = Some mime"
  shows "((\<forall>i < length fs. 4 \<le> count_list sched i) \<longrightarrow> convert_video req envs sched w \<noteq> None) \<and>
    (\<forall>out w'. convert_video req envs sched w = Some (out, w') \<longrightarrow>
       (\<exists>rs. out = Responded (batch_response rs) \<and> length rs = length fs \<and>
          (\<forall>i < length fs.
             field (rs ! i) ''originalName'' = Some (JString (originalname (fs ! i))) \<and>
             (fresh_uuids envs (length fs) \<longrightarrow>
                rs ! i = job_result req fmt mime (fs ! i) (envs i) (disk w)))))"
proof -
  from assms have v: "validate req = Inr (fs, fmt, mime)"
    by (simp add: validate_accepts)
  show ?thesis
  proof (intro conjI allI impI)
    assume "\<forall>i < length fs. 4 \<le> count_list sched i"
    with v show "convert_video req envs sched w \<noteq> None"
      using convert_video_answers [of req fs fmt mime sched envs w] by auto
  next
    fix out w' assume run: "convert_video req envs sched w = Some (out, w')"
    from convert_video_responded [OF v run]
    obtain rs where out: "out = Responded (batch_response rs)" and len: "length rs = length fs"
      and each: "\<forall>i < length fs.
         result_ok req fmt mime (fs ! i) (envs i) (rs ! i) \<and>
         calls_of i w' = calls_of i w @ all_calls fmt (fs ! i) (envs i) \<and>
         (fresh_uuids envs (length fs) \<longrightarrow>
            rs ! i = job_result req fmt mime (fs ! i) (envs i) (disk w) \<and>
            disk w' (output_path fmt (envs i)) = output_kept fmt (envs i) (disk w) \<and>
            disk w' (input_path (fs ! i) (envs i)) = input_unlinked (fs ! i) (envs i) (disk w))"
      by (elim exE conjE)
    have "\<forall>i < length fs.
             field (rs ! i) ''originalName'' = Some (JString (originalname (fs ! i))) \<and>
             (fresh_uuids envs (length fs) \<longrightarrow>
                rs ! i = job_result req fmt mime (fs ! i) (envs i) (disk w))"
    proof (intro allI impI conjI)
      fix i assume i: "i < length fs"
      with each have "result_ok req fmt mime (fs ! i) (envs i) (rs ! i)" by simp
      then show "field (rs ! i) ''originalName'' = Some (JString (originalname (fs ! i)))"
        by (rule result_ok_originalName)
      assume "fresh_uuids envs (length fs)"
      with each i show "rs ! i = job_result req fmt mime (fs ! i) (envs i) (disk w)" by simp
    qed
    with out len
    show "\<exists>rs. out = Responded (batch_response rs) \<and> length rs = length fs \<and>
          (\<forall>i < length fs.
             field (rs ! i) ''originalName'' = Some (JString (originalname (fs ! i))) \<and>
             (fresh_uuids envs (length fs) \<longrightarrow>
                rs ! i = job_result req fmt mime (fs ! i) (envs i) (disk w)))"
      by (intro exI [of _ rs] conjI)
  qed
qed

theorem batch_results_in_order_witness:
  "files example_request = Some [clip_a, clip_b] \<and> [clip_a, clip_b] \<noteq> [] \<and>
   format example_request = Some ''webm'' \<and>
   allowedVideoFormats (toLowerCase ''webm'') = Some ''video/webm'' \<and>
   4 \<le> count_list [0, 1, 0, 1, 0, 1, 0, 1] 0 \<and> 4 \<le> count_list [0, 1, 0, 1, 0, 1, 0, 1] 1 \<and>
   fresh_uuids example_envs (length [clip_a, clip_b]) \<and>
   convert_video example_request example_envs [0, 1, 0, 1, 0, 1, 0, 1] empty_world \<noteq> None \<and>
   (\<exists>rs w'. convert_video example_request example_envs [0, 1, 0, 1, 0, 1, 0, 1] empty_world =
        Some (Responded (batch_response rs), w') \<and> length rs = 2 \<and>
        field (rs ! 0) ''originalName'' = Some (JString ''a.mov'') \<and>
        field (rs ! 1) ''originalName'' = Some (JString ''b.avi'') \<and>
        rs ! 1 = failure_result clip_b ''FFmpeg conversion failed: Invalid data found when processing input'')"
proof -
  have h: "files example_request = Some [clip_a, clip_b]" "[clip_a, clip_b] \<noteq> []"
    "format example_request = Some ''webm''" "allowedVideoFormats (toLowerCase ''webm'') = Some ''video/webm''"
    by (simp_all add: example_request_def allowedVideoFormats_def toLowerCase_def lower_char_def)
  have fair: "\<forall>i < length [clip_a, clip_b]. 4 \<le> count_list [0, 1, 0, 1, 0, 1, 0, 1] i"
    by (simp add: less_Suc_eq)
  have fr: "fresh_uuids example_envs (length [clip_a, clip_b])"
    using example_fresh by (simp add: numeral_2_eq_2)
  note t = batch_results_in_order [OF h, of "[0, 1, 0, 1, 0, 1, 0, 1]" example_envs empty_world]
  from t [THEN conjunct1, THEN mp, OF fair]
  have some: "convert_video example_request example_envs [0, 1, 0, 1, 0, 1, 0, 1] empty_world \<noteq> None" .
  then obtain out w' where run: "convert_video example_request example_envs [0, 1, 0, 1, 0, 1, 0, 1] empty_world = Some (out, w')"
    by auto
  from t [THEN conjunct2, rule_format, OF run]
  obtain rs where rs: "out = Responded (batch_response rs)" "length rs = length [clip_a, clip_b]"
    and each: "\<forall>i < length [clip_a, clip_b].
         field (rs ! i) ''originalName'' = Some (JString (originalname ([clip_a, clip_b] ! i))) \<and>
         (fresh_uuids example_envs (length [clip_a, clip_b]) \<longrightarrow>
            rs ! i = job_result example_request ''webm'' ''video/webm'' ([clip_a, clip_b] ! i) (example_envs i)
                       (disk empty_world))"
    by (elim exE conjE)
  have "0 < length [clip_a, clip_b]" "1 < length [clip_a, clip_b]" by simp_all
  with each fr
  have n0: "field (rs ! 0) ''originalName'' = Some (JString (originalname ([clip_a, clip_b] ! 0)))"
    and n1: "field (rs ! 1) ''originalName'' = Some (JString (originalname ([clip_a, clip_b] ! 1)))"
    and r1: "rs ! 1 = job_result example_request ''webm'' ''video/webm'' ([clip_a, clip_b] ! 1) (example_envs 1)
                       (disk empty_world)"
    by blast+
  have j1: "job_result example_request ''webm'' ''video/webm'' ([clip_a, clip_b] ! 1) (example_envs 1) (disk empty_world)
      = failure_result clip_b ''FFmpeg conversion failed: Invalid data found when processing input''"
    by (simp add: job_result_def example_envs_def env_b_def)
  from run rs n0 n1 r1 j1
  have "\<exists>rs w'. convert_video example_request example_envs [0, 1, 0, 1, 0, 1, 0, 1] empty_world =
        Some (Responded (batch_response rs), w') \<and> length rs = 2 \<and>
        field (rs ! 0) ''originalName'' = Some (JString ''a.mov'') \<and>
        field (rs ! 1) ''originalName'' = Some (JString ''b.avi'') \<and>
        rs ! 1 = failure_result clip_b ''FFmpeg conversion failed: Invalid data found when processing input''"
    by (intro exI [of _ rs] exI [of _ w']) (simp add: clip_a_def clip_b_def)
  with h fr some show ?thesis by simp
qed

text \<open>
  Claim C2, as amended. For every file of a batch that has answered, on every path of its
  job: the calls the job has added end with one call of \<^verbatim>\<open>fs.unlink\<close>, on its input
  path, and hold no other; the input path is not the output path. When the identifiers
  of the batch are fresh, the output file is on disk as the encoder left it, and the
  input file is gone unless \<^verbatim>\<open>fs.unlink\<close> itself failed on a file that was there.
\<close>

theorem input_unlinked_once:
  assumes "files req = Some fs" "fs \<noteq> []" "format req = Some fmt"
    and "allowedVideoFormats (toLowerCase fmt) = Some mime"
    and "convert_video req envs sched w = Some (out, w')"
    and "i < length fs"
  shows "\<exists>added. calls_of i w' = calls_of i w @ added \<and>
      filter is_unlink added = [Unlink (input_path (fs ! i) (envs i))] \<and>
      last added = Unlink (input_path (fs ! i) (envs i)) \<and>
      input_path (fs ! i) (envs i) \<noteq> output_path fmt (envs i) \<and>
      (fresh_uuids envs (length fs) \<longrightarrow>
         disk w' (output_path fmt (envs i)) = output_kept fmt (envs i) (disk w) \<and>
         disk w' (input_path (fs ! i) (envs i)) = input_unlinked (fs ! i) (envs i) (disk w) \<and>
         (unlink_fault (envs i) = None \<longrightarrow> disk w' (input_path (fs ! i) (envs i)) = None))"
proof -
  from assms have v: "validate req = Inr (fs, fmt, mime)"
    by (simp add: validate_accepts)
  from convert_video_responded [OF v assms(5)]
  obtain rs where each: "\<forall>i < length fs.
       result_ok req fmt mime (fs ! i) (envs i) (rs ! i) \<and>
       calls_of i w' = calls_of i w @ all_calls fmt (fs ! i) (envs i) \<and>
       (fresh_uuids envs (length fs) \<longrightarrow>
          rs ! i = job_result req fmt mime (fs ! i) (envs i) (disk w) \<and>
          disk w' (output_path fmt (envs i)) = output_kept fmt (envs i) (disk w) \<and>
          disk w' (input_path (fs ! i) (envs i)) = input_unlinked (fs ! i) (envs i) (disk w))"
    by (elim exE conjE)
  from each assms(6)
  have calls: "calls_of i w' = calls_of i w @ all_calls fmt (fs ! i) (envs i)"
    and fresh: "fresh_uuids envs (length fs) \<Longrightarrow>
          disk w' (output_path fmt (envs i)) = output_kept fmt (envs i) (disk w) \<and>
          disk w' (input_path (fs ! i) (envs i)) = input_unlinked (fs ! i) (envs i) (disk w)"
    by simp_all
  have d: "fresh_uuids envs (length fs) \<longrightarrow>
         disk w' (output_path fmt (envs i)) = output_kept fmt (envs i) (disk w) \<and>
         disk w' (input_path (fs ! i) (envs i)) = input_unlinked (fs ! i) (envs i) (disk w) \<and>
         (unlink_fault (envs i) = None \<longrightarrow> disk w' (input_path (fs ! i) (envs i)) = None)"
    using fresh by (simp add: input_unlinked_None)
  have u: "filter is_unlink (all_calls fmt (fs ! i) (envs i)) = [Unlink (input_path (fs ! i) (envs i))]"
    by (rule unlinks_of_all_calls)
  have l: "last (all_calls fmt (fs ! i) (envs i)) = Unlink (input_path (fs ! i) (envs i))"
    by (rule last_all_calls)
  have p: "input_path (fs ! i) (envs i) \<noteq> output_path fmt (envs i)"
    using allowed_slash_free [OF assms(4)] by (rule in_out_distinct)
  show ?thesis
  proof (rule exI [of _ "all_calls fmt (fs ! i) (envs i)"], intro conjI)
    show "calls_of i w' = calls_of i w @ all_calls fmt (fs ! i) (envs i)" by (rule calls)
    show "filter is_unlink (all_calls fmt (fs ! i) (envs i)) = [Unlink (input_path (fs ! i) (envs i))]" by (rule u)
    show "last (all_calls fmt (fs ! i) (envs i)) = Unlink (input_path (fs ! i) (envs i))" by (rule l)
    show "input_path (fs ! i) (envs i) \<noteq> output_path fmt (envs i)" by (rule p)
    show "fresh_uuids envs (length fs) \<longrightarrow>
         disk w' (output_path fmt (envs i)) = output_kept fmt (envs i) (disk w) \<and>
         disk w' (input_path (fs ! i) (envs i)) = input_unlinked (fs ! i) (envs i) (disk w) \<and>
         (unlink_fault (envs i) = None \<longrightarrow> disk w' (input_path (fs ! i) (envs i)) = None)" by (rule d)
  qed
qed

theorem input_unlinked_once_witness:
  "files example_request = Some [clip_a, clip_b] \<and> [clip_a, clip_b] \<noteq> [] \<and>
   format example_request = Some ''webm'' \<and>
   allowedVideoFormats (toLowerCase ''webm'') = Some ''video/webm'' \<and>
   1 < length [clip_a, clip_b] \<and>
   fresh_uuids example_envs (length [clip_a, clip_b]) \<and> unlink_fault (example_envs 1) = None \<and>
   (\<exists>out w' added. convert_video example_request example_envs example_schedule empty_world = Some (out, w') \<and>
      calls_of 1 w' = calls_of 1 empty_world @ added \<and>
      filter is_unlink added = [Unlink ''/tmp/9b2e0c1a-7f3d-4c55-8e21-0a1b2c3d4e5f_input.avi''] \<and>
      last added = Unlink ''/tmp/9b2e0c1a-7f3d-4c55-8e21-0a1b2c3d4e5f_input.avi'' \<and>
      disk w' ''/tmp/9b2e0c1a-7f3d-4c55-8e21-0a1b2c3d4e5f_input.avi'' = None)"
proof -
  have h: "files example_request = Some [clip_a, clip_b]" "[clip_a, clip_b] \<noteq> []"
    "format example_request = Some ''webm''" "allowedVideoFormats (toLowerCase ''webm'') = Some ''video/webm''"
    by (simp_all add: example_request_def allowedVideoFormats_def toLowerCase_def lower_char_def)
  have i: "1 < length [clip_a, clip_b]" by simp
  have fr: "fresh_uuids example_envs (length [clip_a, clip_b])"
    using example_fresh by (simp add: numeral_2_eq_2)
  have nf: "unlink_fault (example_envs 1) = None"
    by (simp add: example_envs_def env_b_def)
  obtain out w' where run: "convert_video example_request example_envs example_schedule empty_world = Some (out, w')"
    using example_run by auto
  from input_unlinked_once [OF h run i]
  obtain added where
    a: "calls_of 1 w' = calls_of 1 empty_world @ added"
      "filter is_unlink added = [Unlink (input_path ([clip_a, clip_b] ! 1) (example_envs 1))]"
      "last added = Unlink (input_path ([clip_a, clip_b] ! 1) (example_envs 1))"
    and d: "fresh_uuids example_envs (length [clip_a, clip_b]) \<longrightarrow>
         disk w' (output_path ''webm'' (example_envs 1)) = output_kept ''webm'' (example_envs 1) (disk empty_world) \<and>
         disk w' (input_path ([clip_a, clip_b] ! 1) (example_envs 1)) =
           input_unlinked ([clip_a, clip_b] ! 1) (example_envs 1) (disk empty_world) \<and>
         (unlink_fault (example_envs 1) = None \<longrightarrow>
            disk w' (input_path ([clip_a, clip_b] ! 1) (example_envs 1)) = None)"
    by (elim exE conjE)
  from d fr nf have "disk w' (input_path ([clip_a, clip_b] ! 1) (example_envs 1)) = None"
    by blast
  with a run
  have "\<exists>out w' added. convert_video example_request example_envs example_schedule empty_world = Some (out, w') \<and>
      calls_of 1 w' = calls_of 1 empty_world @ added \<and>
      filter is_unlink added = [Unlink ''/tmp/9b2e0c1a-7f3d-4c55-8e21-0a1b2c3d4e5f_input.avi''] \<and>
      last added = Unlink ''/tmp/9b2e0c1a-7f3d-4c55-8e21-0a1b2c3d4e5f_input.avi'' \<and>
      disk w' ''/tmp/9b2e0c1a-7f3d-4c55-8e21-0a1b2c3d4e5f_input.avi'' = None"
    using example_paths(3) by (intro exI [of _ out] exI [of _ w'] exI [of _ added]) simp
  with h i fr nf show ?thesis by (simp only: simp_thms)
qed

text \<open>
  Claim C2 as it is written fails: here the conversion succeeds, \<^verbatim>\<open>fs.unlink\<close> is called
  once on the input path and is refused, the handler answers 200, and the input file is
  still on disk.
\<close>

theorem input_left_when_unlink_fails:
  "(case convert_video single_request (\<lambda>i. env_unlink_refused) [0, 0, 0, 0] empty_world of
      None \<Rightarrow> False
    | Some (out, w') \<Rightarrow>
        out = Responded (batch_response
           [success_result single_request clip_a ''/tmp/7c9e6679-7425-40de-944b-e07fc1f90ae7_output.mp4''
              ''video/mp4'' (length ''mp4-bytes'')]) \<and>
        filter is_unlink (calls_of 0 w') = [Unlink ''/tmp/7c9e6679-7425-40de-944b-e07fc1f90ae7_input.mov''] \<and>
        disk w' ''/tmp/7c9e6679-7425-40de-944b-e07fc1f90ae7_input.mov'' = Some ''AAAA'' \<and>
        disk w' ''/tmp/7c9e6679-7425-40de-944b-e07fc1f90ae7_input.mov'' \<noteq> None)"
proof (cases "convert_video single_request (\<lambda>i. env_unlink_refused) [0, 0, 0, 0] empty_world")
  case None
  with unlink_refused_run show ?thesis by simp
next
  case (Some r)
  obtain out w' where r: "r = (out, w')" by (cases r)
  from unlink_refused_run Some r
  have "out = Responded (batch_response
           [success_result single_request clip_a ''/tmp/7c9e6679-7425-40de-944b-e07fc1f90ae7_output.mp4''
              ''video/mp4'' (length ''mp4-bytes'')])"
    and "calls w' =
         [(0, WriteFile ''/tmp/7c9e6679-7425-40de-944b-e07fc1f90ae7_input.mov'' ''AAAA''),
          (0, Spawn ''ffmpeg''
             [''-i'', ''/tmp/7c9e6679-7425-40de-944b-e07fc1f90ae7_input.mov'', ''-c:v'', ''libx264'',
              ''-preset'', ''veryfast'', ''-crf'', ''28'', ''-threads'', ''0'', ''-y'',
              ''/tmp/7c9e6679-7425-40de-944b-e07fc1f90ae7_output.mp4'']),
          (0, Stat ''/tmp/7c9e6679-7425-40de-944b-e07fc1f90ae7_output.mp4''),
          (0, Unlink ''/tmp/7c9e6679-7425-40de-944b-e07fc1f90ae7_input.mov'')]"
    and "disk w' ''/tmp/7c9e6679-7425-40de-944b-e07fc1f90ae7_input.mov'' = Some ''AAAA''"
    by simp_all
  with Some r show ?thesis
    by (simp add: calls_of_def)
qed



text \<open>
  Claim C4 at a request with files and no \<^verbatim>\<open>format\<close> field: the handler calls
  \<^verbatim>\<open>toLowerCase\<close> on undefined before it tests the format, so it throws a TypeError
  instead of answering 400. No job has started: the world is as it was.
\<close>

theorem missing_format_throws:
  "convert_video (example_request\<lparr>format := None\<rparr>) envs sched w =
     Some (Rejected (''TypeError: Cannot read properties of undefined (reading '' @
             [CHR 0x27] @ ''toLowerCase'' @ [CHR 0x27] @ '')''), w)"
  by (simp add: convert_video_def validate_def example_request_def)

text \<open>
  Claim C5 at the format \<^verbatim>\<open>WEBM\<close>: the batch is accepted with the MIME type
  \<^verbatim>\<open>video/webm\<close> and the output files are named \<^verbatim>\<open>.webm\<close>, but the codec handed to
  the encoder is \<^verbatim>\<open>libx264\<close>, because the codec is chosen by comparing the format as it
  was sent with \<^verbatim>\<open>webm\<close>.
\<close>

theorem upper_case_webm_gets_libx264:
  "validate (example_request\<lparr>format := Some ''WEBM''\<rparr>) = Inr ([clip_a, clip_b], ''WEBM'', ''video/webm'') \<and>
   (case convert_video (example_request\<lparr>format := Some ''WEBM''\<rparr>) example_envs example_schedule empty_world of
      None \<Rightarrow> False
    | Some (out, w') \<Rightarrow>
        calls_of 0 w' =
          [WriteFile ''/tmp/123e4567-e89b-42d3-a456-426614174000_input.mov'' ''AAAA'',
           Spawn ''ffmpeg''
             [''-i'', ''/tmp/123e4567-e89b-42d3-a456-426614174000_input.mov'',
              ''-c:v'', ''libx264'',
              ''-preset'', ''veryfast'',
              ''-crf'', ''28'',
              ''-threads'', ''0'',
              ''-y'', ''/tmp/123e4567-e89b-42d3-a456-426614174000_output.webm''],
           Stat ''/tmp/123e4567-e89b-42d3-a456-426614174000_output.webm'',
           Unlink ''/tmp/123e4567-e89b-42d3-a456-426614174000_input.mov''])"
  by (simp add: model_defs example_defs calls_of_def)

text \<open>
  Claim C6. Every entry of \<^verbatim>\<open>convertedFiles\<close> has one of two shapes. Either its
  keys are originalName, newName, mimeType, downloadUrl and size, with the MIME type of the
  target format and a number for the size, and it has no error; when the identifiers of the
  batch are fresh, that number is the length of the output file on disk. Or its keys are
  originalName, newName, mimeType, downloadUrl and error, with the MIME type
  \<^verbatim>\<open>application/octet-stream\<close>, the download URL \<^verbatim>\<open>#\<close> and an error text, and it has
  no size.
\<close>

theorem result_has_one_of_two_shapes:
  assumes "files req = Some fs" "fs \<noteq> []" "format req = Some fmt"
    and "allowedVideoFormats (toLowerCase fmt) = Some mime"
    and "convert_video req envs sched w = Some (out, w')"
  shows "\<exists>rs. out = Responded (batch_response rs) \<and> length rs = length fs \<and>
    (\<forall>i < length fs.
       (keys (rs ! i) = [''originalName'', ''newName'', ''mimeType'', ''downloadUrl'', ''size''] \<and>
        field (rs ! i) ''mimeType'' = Some (JString mime) \<and>
        (\<exists>sz. field (rs ! i) ''size'' = Some (JNumber sz) \<and>
           (fresh_uuids envs (length fs) \<longrightarrow>
              (\<exists>b. disk w' (output_path fmt (envs i)) = Some b \<and> length b = sz))) \<and>
        field (rs ! i) ''error'' = None)
       \<or>
       (keys (rs ! i) = [''originalName'', ''newName'', ''mimeType'', ''downloadUrl'', ''error''] \<and>
        field (rs ! i) ''mimeType'' = Some (JString ''application/octet-stream'') \<and>
        field (rs ! i) ''downloadUrl'' = Some (JString ''#'') \<and>
        (\<exists>text. field (rs ! i) ''error'' = Some (JString (''Failed to convert: '' @ text))) \<and>
        field (rs ! i) ''size'' = None))"
proof -
  from assms have v: "validate req = Inr (fs, fmt, mime)"
    by (simp add: validate_accepts)
  from convert_video_responded [OF v assms(5)]
  obtain rs where out: "out = Responded (batch_response rs)" and len: "length rs = length fs"
    and each: "\<forall>i < length fs.
       result_ok req fmt mime (fs ! i) (envs i) (rs ! i) \<and>
       calls_of i w' = calls_of i w @ all_calls fmt (fs ! i) (envs i) \<and>
       (fresh_uuids envs (length fs) \<longrightarrow>
          rs ! i = job_result req fmt mime (fs ! i) (envs i) (disk w) \<and>
          disk w' (output_path fmt (envs i)) = output_kept fmt (envs i) (disk w) \<and>
          disk w' (input_path (fs ! i) (envs i)) = input_unlinked (fs ! i) (envs i) (disk w))"
    by (elim exE conjE)
  have "(keys (rs ! i) = [''originalName'', ''newName'', ''mimeType'', ''downloadUrl'', ''size''] \<and>
        field (rs ! i) ''mimeType'' = Some (JString mime) \<and>
        (\<exists>sz. field (rs ! i) ''size'' = Some (JNumber sz) \<and>
           (fresh_uuids envs (length fs) \<longrightarrow>
              (\<exists>b. disk w' (output_path fmt (envs i)) = Some b \<and> length b = sz))) \<and>
        field (rs ! i) ''error'' = None)
       \<or>
       (keys (rs ! i) = [''originalName'', ''newName'', ''mimeType'', ''downloadUrl'', ''error''] \<and>
        field (rs ! i) ''mimeType'' = Some (JString ''application/octet-stream'') \<and>
        field (rs ! i) ''downloadUrl'' = Some (JString ''#'') \<and>
        (\<exists>text. field (rs ! i) ''error'' = Some (JString (''Failed to convert: '' @ text))) \<and>
        field (rs ! i) ''size'' = None)"
    if i: "i < length fs" for i
  proof -
    from each i have ok: "result_ok req fmt mime (fs ! i) (envs i) (rs ! i)"
      and fresh: "fresh_uuids envs (length fs) \<Longrightarrow>
          rs ! i = job_result req fmt mime (fs ! i) (envs i) (disk w) \<and>
          disk w' (output_path fmt (envs i)) = output_kept fmt (envs i) (disk w)"
      by simp_all
    from result_ok_cases [OF ok]
    consider m where "rs ! i = failure_result (fs ! i) m"
      | sz where "rs ! i = success_result req (fs ! i) (output_path fmt (envs i)) mime sz"
      by blast
    then show ?thesis
    proof cases
      case 1
      then show ?thesis by (simp add: keys_results fields_failure)
    next
      case 2
      have "\<exists>b. disk w' (output_path fmt (envs i)) = Some b \<and> length b = sz"
        if "fresh_uuids envs (length fs)"
        using fresh [OF that] 2 job_result_success [of req fmt mime "fs ! i" "envs i" "disk w" sz]
        by simp
      with 2 show ?thesis by (simp add: keys_results fields_success)
    qed
  qed
  with out len show ?thesis by blast
qed

theorem result_has_one_of_two_shapes_witness:
  "files example_request = Some [clip_a, clip_b] \<and> [clip_a, clip_b] \<noteq> [] \<and>
   format example_request = Some ''webm'' \<and>
   allowedVideoFormats (toLowerCase ''webm'') = Some ''video/webm'' \<and>
   fresh_uuids example_envs 2 \<and>
   (\<exists>rs w'. convert_video example_request example_envs example_schedule empty_world =
        Some (Responded (batch_response rs), w') \<and>
      keys (rs ! 0) = [''originalName'', ''newName'', ''mimeType'', ''downloadUrl'', ''size''] \<and>
      field (rs ! 0) ''mimeType'' = Some (JString ''video/webm'') \<and>
      field (rs ! 0) ''size'' = Some (JNumber 10) \<and>
      (\<exists>b. disk w' ''/tmp/123e4567-e89b-42d3-a456-426614174000_output.webm'' = Some b \<and> length b = 10) \<and>
      keys (rs ! 1) = [''originalName'', ''newName'', ''mimeType'', ''downloadUrl'', ''error''] \<and>
      field (rs ! 1) ''size'' = None)"
proof -
  have h: "files example_request = Some [clip_a, clip_b]" "[clip_a, clip_b] \<noteq> []"
    "format example_request = Some ''webm''" "allowedVideoFormats (toLowerCase ''webm'') = Some ''video/webm''"
    by (simp_all add: example_request_def allowedVideoFormats_def toLowerCase_def lower_char_def)
  obtain out w' where run: "convert_video example_request example_envs example_schedule empty_world = Some (out, w')"
    and out: "out = Responded (batch_response
       [success_result example_request clip_a ''/tmp/123e4567-e89b-42d3-a456-426614174000_output.webm'' ''video/webm'' (length ''webm-bytes''),
        failure_result clip_b ''FFmpeg conversion failed: Invalid data found when processing input''])"
    using example_run by auto
  from result_has_one_of_two_shapes [OF h run]
  obtain rs where rs: "out = Responded (batch_response rs)"
    and each: "\<forall>i < length [clip_a, clip_b].
       (keys (rs ! i) = [''originalName'', ''newName'', ''mimeType'', ''downloadUrl'', ''size''] \<and>
        field (rs ! i) ''mimeType'' = Some (JString ''video/webm'') \<and>
        (\<exists>sz. field (rs ! i) ''size'' = Some (JNumber sz) \<and>
           (fresh_uuids example_envs (length [clip_a, clip_b]) \<longrightarrow>
              (\<exists>b. disk w' (output_path ''webm'' (example_envs i)) = Some b \<and> length b = sz))) \<and>
        field (rs ! i) ''error'' = None)
       \<or>
       (keys (rs ! i) = [''originalName'', ''newName'', ''mimeType'', ''downloadUrl'', ''error''] \<and>
        field (rs ! i) ''mimeType'' = Some (JString ''application/octet-stream'') \<and>
        field (rs ! i) ''downloadUrl'' = Some (JString ''#'') \<and>
        (\<exists>text. field (rs ! i) ''error'' = Some (JString (''Failed to convert: '' @ text))) \<and>
        field (rs ! i) ''size'' = None)"
    by (elim exE conjE)
  from out rs have rs_eq: "rs =
       [success_result example_request clip_a ''/tmp/123e4567-e89b-42d3-a456-426614174000_output.webm'' ''video/webm'' (length ''webm-bytes''),
        failure_result clip_b ''FFmpeg conversion failed: Invalid data found when processing input'']"
    by (simp add: batch_response_inject)
  have k0: "keys (rs ! 0) = [''originalName'', ''newName'', ''mimeType'', ''downloadUrl'', ''size'']"
    and m0: "field (rs ! 0) ''mimeType'' = Some (JString ''video/webm'')"
    and s0: "field (rs ! 0) ''size'' = Some (JNumber 10)"
    and k1: "keys (rs ! 1) = [''originalName'', ''newName'', ''mimeType'', ''downloadUrl'', ''error'']"
    and s1: "field (rs ! 1) ''size'' = None"
    by (simp_all add: rs_eq keys_results fields_success fields_failure)
  have "0 < length [clip_a, clip_b]" by simp
  with each have "(keys (rs ! 0) = [''originalName'', ''newName'', ''mimeType'', ''downloadUrl'', ''size''] \<and>
        field (rs ! 0) ''mimeType'' = Some (JString ''video/webm'') \<and>
        (\<exists>sz. field (rs ! 0) ''size'' = Some (JNumber sz) \<and>
           (fresh_uuids example_envs (length [clip_a, clip_b]) \<longrightarrow>
              (\<exists>b. disk w' (output_path ''webm'' (example_envs 0)) = Some b \<and> length b = sz))) \<and>
        field (rs ! 0) ''error'' = None)
       \<or>
       (keys (rs ! 0) = [''originalName'', ''newName'', ''mimeType'', ''downloadUrl'', ''error''] \<and>
        field (rs ! 0) ''mimeType'' = Some (JString ''application/octet-stream'') \<and>
        field (rs ! 0) ''downloadUrl'' = Some (JString ''#'') \<and>
        (\<exists>text. field (rs ! 0) ''error'' = Some (JString (''Failed to convert: '' @ text))) \<and>
        field (rs ! 0) ''size'' = None)"
    by blast
  moreover have "fresh_uuids example_envs (length [clip_a, clip_b])"
    using example_fresh by (simp add: numeral_2_eq_2)
  ultimately
  have d0: "\<exists>b. disk w' ''/tmp/123e4567-e89b-42d3-a456-426614174000_output.webm'' = Some b \<and> length b = 10"
    using s0 by (auto simp: example_paths)
  from run rs k0 m0 s0 d0 k1 s1
  have "\<exists>rs w'. convert_video example_request example_envs example_schedule empty_world =
        Some (Responded (batch_response rs), w') \<and>
      keys (rs ! 0) = [''originalName'', ''newName'', ''mimeType'', ''downloadUrl'', ''size''] \<and>
      field (rs ! 0) ''mimeType'' = Some (JString ''video/webm'') \<and>
      field (rs ! 0) ''size'' = Some (JNumber 10) \<and>
      (\<exists>b. disk w' ''/tmp/123e4567-e89b-42d3-a456-426614174000_output.webm'' = Some b \<and> length b = 10) \<and>
      keys (rs ! 1) = [''originalName'', ''newName'', ''mimeType'', ''downloadUrl'', ''error''] \<and>
      field (rs ! 1) ''size'' = None"
    by (intro exI [of _ rs] exI [of _ w']) (simp only: simp_thms)
  with h example_fresh show ?thesis by simp
qed

text \<open>
  Claim C7. For a job whose input was written and whose encoder closed with code 0:
  the job calls \<^verbatim>\<open>fs.stat\<close> on its output path after the encoder and before the
  cleanup; when that call fails the entry is the failure object with its message, never the
  success object. When the identifiers of the batch are fresh, the entry is decided by that
  call alone, made on the disk as the encoder left it: the failure object with the
  message of \<^verbatim>\<open>fs.stat\<close> when it fails, for one when the encoder wrote no file and none
  was there, and the success object with the size it returns otherwise.
\<close>

theorem exit_code_zero_needs_stat:
  assumes "files req = Some fs" "fs \<noteq> []" "format req = Some fmt"
    and "allowedVideoFormats (toLowerCase fmt) = Some mime"
    and "convert_video req envs sched w = Some (out, w')"
    and "i < length fs" "on_write (envs i) = WriteOk" "on_ffmpeg (envs i) = Closed (Some 0) err written"
  shows "\<exists>rs. out = Responded (batch_response rs) \<and> length rs = length fs \<and>
    calls_of i w' = calls_of i w @
      [WriteFile (input_path (fs ! i) (envs i)) (buffer (fs ! i)),
       Spawn ''ffmpeg'' (ffmpegArgs fmt (input_path (fs ! i) (envs i)) (output_path fmt (envs i))),
       Stat (output_path fmt (envs i)),
       Unlink (input_path (fs ! i) (envs i))] \<and>
    (\<forall>m. stat_fault (envs i) = Some m \<longrightarrow> rs ! i = failure_result (fs ! i) m) \<and>
    (\<forall>sz. rs ! i = success_result req (fs ! i) (output_path fmt (envs i)) mime sz \<longrightarrow>
       stat_fault (envs i) = None) \<and>
    (fresh_uuids envs (length fs) \<longrightarrow>
       rs ! i =
         (case fs_stat (\<lambda>p. case written of None \<Rightarrow> disk w p | Some b \<Rightarrow> Some b) (stat_fault (envs i))
                 (output_path fmt (envs i)) of
            Inl message \<Rightarrow> failure_result (fs ! i) message
          | Inr sz \<Rightarrow> success_result req (fs ! i) (output_path fmt (envs i)) mime sz))"
proof -
  from assms have v: "validate req = Inr (fs, fmt, mime)"
    by (simp add: validate_accepts)
  from convert_video_responded [OF v assms(5)]
  obtain rs where out: "out = Responded (batch_response rs)" and len: "length rs = length fs"
    and each: "\<forall>i < length fs.
       result_ok req fmt mime (fs ! i) (envs i) (rs ! i) \<and>
       calls_of i w' = calls_of i w @ all_calls fmt (fs ! i) (envs i) \<and>
       (fresh_uuids envs (length fs) \<longrightarrow>
          rs ! i = job_result req fmt mime (fs ! i) (envs i) (disk w) \<and>
          disk w' (output_path fmt (envs i)) = output_kept fmt (envs i) (disk w) \<and>
          disk w' (input_path (fs ! i) (envs i)) = input_unlinked (fs ! i) (envs i) (disk w))"
    by (elim exE conjE)
  from each assms(6) have ok: "result_ok req fmt mime (fs ! i) (envs i) (rs ! i)"
    and calls: "calls_of i w' = calls_of i w @ all_calls fmt (fs ! i) (envs i)"
    and fresh: "fresh_uuids envs (length fs) \<Longrightarrow> rs ! i = job_result req fmt mime (fs ! i) (envs i) (disk w)"
    by simp_all
  have exit: "exit_ok (envs i)"
    using assms(8) by (simp add: exit_ok_def)
  have a: "calls_of i w' = calls_of i w @
      [WriteFile (input_path (fs ! i) (envs i)) (buffer (fs ! i)),
       Spawn ''ffmpeg'' (ffmpegArgs fmt (input_path (fs ! i) (envs i)) (output_path fmt (envs i))),
       Stat (output_path fmt (envs i)),
       Unlink (input_path (fs ! i) (envs i))]"
    using calls all_calls_exit_ok [OF assms(7,8)] by simp
  have b: "\<forall>m. stat_fault (envs i) = Some m \<longrightarrow> rs ! i = failure_result (fs ! i) m"
    using result_ok_cases [OF ok] assms(7) exit by blast
  have c: "\<forall>sz. rs ! i = success_result req (fs ! i) (output_path fmt (envs i)) mime sz \<longrightarrow>
       stat_fault (envs i) = None"
  proof (intro allI impI)
    fix sz assume s: "rs ! i = success_result req (fs ! i) (output_path fmt (envs i)) mime sz"
    show "stat_fault (envs i) = None"
    proof (cases "stat_fault (envs i)")
      case (Some m)
      with b s show ?thesis by (simp add: success_not_failure)
    qed simp
  qed
  have d: "fresh_uuids envs (length fs) \<longrightarrow>
       rs ! i =
         (case fs_stat (\<lambda>p. case written of None \<Rightarrow> disk w p | Some b \<Rightarrow> Some b) (stat_fault (envs i))
                 (output_path fmt (envs i)) of
            Inl message \<Rightarrow> failure_result (fs ! i) message
          | Inr sz \<Rightarrow> success_result req (fs ! i) (output_path fmt (envs i)) mime sz)"
    using fresh job_result_exit_ok [OF assms(7,8)] by simp
  from out len a b c d show ?thesis by blast
qed

theorem exit_code_zero_needs_stat_witness:
  "files single_request = Some [clip_a] \<and> [clip_a] \<noteq> [] \<and> format single_request = Some ''mp4'' \<and>
   allowedVideoFormats (toLowerCase ''mp4'') = Some ''video/mp4'' \<and>
   0 < length [clip_a] \<and> on_write env_no_output = WriteOk \<and>
   on_ffmpeg env_no_output = Closed (Some 0) [] None \<and>
   fresh_uuids (\<lambda>i. env_no_output) (length [clip_a]) \<and>
   (\<exists>rs w'. convert_video single_request (\<lambda>i. env_no_output) [0, 0, 0, 0] empty_world =
        Some (Responded (batch_response rs), w') \<and>
      calls_of 0 w' =
        [WriteFile ''/tmp/0f8fad5b-d9cb-469f-a165-70867728950e_input.mov'' ''AAAA'',
         Spawn ''ffmpeg''
           [''-i'', ''/tmp/0f8fad5b-d9cb-469f-a165-70867728950e_input.mov'', ''-c:v'', ''libx264'',
            ''-preset'', ''veryfast'', ''-crf'', ''28'', ''-threads'', ''0'', ''-y'',
            ''/tmp/0f8fad5b-d9cb-469f-a165-70867728950e_output.mp4''],
         Stat ''/tmp/0f8fad5b-d9cb-469f-a165-70867728950e_output.mp4'',
         Unlink ''/tmp/0f8fad5b-d9cb-469f-a165-70867728950e_input.mov''] \<and>
      rs ! 0 = failure_result clip_a
        (enoent ''stat'' ''/tmp/0f8fad5b-d9cb-469f-a165-70867728950e_output.mp4'')) \<and>
   3 < length [clip_a, clip_b, clip_a, clip_b] \<and> on_write (failing_envs 3) = WriteOk \<and>
   on_ffmpeg (failing_envs 3) = Closed (Some 0) [] (Some ''mp4-bytes'') \<and>
   stat_fault (failing_envs 3) = Some ''EACCES: permission denied, stat'' \<and>
   (\<exists>rs w'. convert_video failing_request failing_envs failing_schedule empty_world =
        Some (Responded (batch_response rs), w') \<and>
      rs ! 3 = failure_result clip_b ''EACCES: permission denied, stat'')"
proof -
  have h: "files single_request = Some [clip_a]" "[clip_a] \<noteq> []" "format single_request = Some ''mp4''"
    "allowedVideoFormats (toLowerCase ''mp4'') = Some ''video/mp4''"
    by (simp_all add: single_request_def allowedVideoFormats_def toLowerCase_def lower_char_def)
  have e: "0 < length [clip_a]" "on_write env_no_output = WriteOk"
    "on_ffmpeg env_no_output = Closed (Some 0) [] None"
    by (simp_all add: env_no_output_def)
  have fr: "fresh_uuids (\<lambda>i. env_no_output) (length [clip_a])"
    by (simp add: fresh_uuids_def is_uuid_def env_no_output_def)
  obtain out w' where run: "convert_video single_request (\<lambda>i. env_no_output) [0, 0, 0, 0] empty_world = Some (out, w')"
    using no_output_run by auto
  from exit_code_zero_needs_stat [OF h run e]
  obtain rs where rs: "out = Responded (batch_response rs)"
    and calls: "calls_of 0 w' = calls_of 0 empty_world @
      [WriteFile (input_path ([clip_a] ! 0) env_no_output) (buffer ([clip_a] ! 0)),
       Spawn ''ffmpeg'' (ffmpegArgs ''mp4'' (input_path ([clip_a] ! 0) env_no_output) (output_path ''mp4'' env_no_output)),
       Stat (output_path ''mp4'' env_no_output),
       Unlink (input_path ([clip_a] ! 0) env_no_output)]"
    and res: "fresh_uuids (\<lambda>i. env_no_output) (length [clip_a]) \<longrightarrow>
       rs ! 0 =
         (case fs_stat (\<lambda>p. case None of None \<Rightarrow> disk empty_world p | Some b \<Rightarrow> Some b) (stat_fault env_no_output)
                 (output_path ''mp4'' env_no_output) of
            Inl message \<Rightarrow> failure_result ([clip_a] ! 0) message
          | Inr sz \<Rightarrow> success_result single_request ([clip_a] ! 0) (output_path ''mp4'' env_no_output) ''video/mp4'' sz)"
    by (elim exE conjE)
  have c: "calls_of 0 w' =
        [WriteFile ''/tmp/0f8fad5b-d9cb-469f-a165-70867728950e_input.mov'' ''AAAA'',
         Spawn ''ffmpeg''
           [''-i'', ''/tmp/0f8fad5b-d9cb-469f-a165-70867728950e_input.mov'', ''-c:v'', ''libx264'',
            ''-preset'', ''veryfast'', ''-crf'', ''28'', ''-threads'', ''0'', ''-y'',
            ''/tmp/0f8fad5b-d9cb-469f-a165-70867728950e_output.mp4''],
         Stat ''/tmp/0f8fad5b-d9cb-469f-a165-70867728950e_output.mp4'',
         Unlink ''/tmp/0f8fad5b-d9cb-469f-a165-70867728950e_input.mov'']"
    unfolding calls
    by (simp add: calls_of_def input_path_def output_path_def example_joined ffmpegArgs_def extname_def
        last_component_def toLowerCase_def lower_char_def example_defs Let_def)
  have r: "rs ! 0 = failure_result clip_a
        (enoent ''stat'' ''/tmp/0f8fad5b-d9cb-469f-a165-70867728950e_output.mp4'')"
    using res fr
    by (simp add: fs_stat_def enoent_def output_path_def example_joined toLowerCase_def lower_char_def
        example_defs)
  from run rs c r
  have "\<exists>rs w'. convert_video single_request (\<lambda>i. env_no_output) [0, 0, 0, 0] empty_world =
        Some (Responded (batch_response rs), w') \<and>
      calls_of 0 w' =
        [WriteFile ''/tmp/0f8fad5b-d9cb-469f-a165-70867728950e_input.mov'' ''AAAA'',
         Spawn ''ffmpeg''
           [''-i'', ''/tmp/0f8fad5b-d9cb-469f-a165-70867728950e_input.mov'', ''-c:v'', ''libx264'',
            ''-preset'', ''veryfast'', ''-crf'', ''28'', ''-threads'', ''0'', ''-y'',
            ''/tmp/0f8fad5b-d9cb-469f-a165-70867728950e_output.mp4''],
         Stat ''/tmp/0f8fad5b-d9cb-469f-a165-70867728950e_output.mp4'',
         Unlink ''/tmp/0f8fad5b-d9cb-469f-a165-70867728950e_input.mov''] \<and>
      rs ! 0 = failure_result clip_a
        (enoent ''stat'' ''/tmp/0f8fad5b-d9cb-469f-a165-70867728950e_output.mp4'')"
    by (intro exI [of _ rs] exI [of _ w']) (simp only: simp_thms)
  with h e fr have first: "files single_request = Some [clip_a] \<and> [clip_a] \<noteq> [] \<and> format single_request = Some ''mp4'' \<and>
   allowedVideoFormats (toLowerCase ''mp4'') = Some ''video/mp4'' \<and>
   0 < length [clip_a] \<and> on_write env_no_output = WriteOk \<and>
   on_ffmpeg env_no_output = Closed (Some 0) [] None \<and>
   fresh_uuids (\<lambda>i. env_no_output) (length [clip_a]) \<and>
   (\<exists>rs w'. convert_video single_request (\<lambda>i. env_no_output) [0, 0, 0, 0] empty_world =
        Some (Responded (batch_response rs), w') \<and>
      calls_of 0 w' =
        [WriteFile ''/tmp/0f8fad5b-d9cb-469f-a165-70867728950e_input.mov'' ''AAAA'',
         Spawn ''ffmpeg''
           [''-i'', ''/tmp/0f8fad5b-d9cb-469f-a165-70867728950e_input.mov'', ''-c:v'', ''libx264'',
            ''-preset'', ''veryfast'', ''-crf'', ''28'', ''-threads'', ''0'', ''-y'',
            ''/tmp/0f8fad5b-d9cb-469f-a165-70867728950e_output.mp4''],
         Stat ''/tmp/0f8fad5b-d9cb-469f-a165-70867728950e_output.mp4'',
         Unlink ''/tmp/0f8fad5b-d9cb-469f-a165-70867728950e_input.mov''] \<and>
      rs ! 0 = failure_result clip_a
        (enoent ''stat'' ''/tmp/0f8fad5b-d9cb-469f-a165-70867728950e_output.mp4''))"
    by (simp only: simp_thms)
  let ?fs = "[clip_a, clip_b, clip_a, clip_b]"
  have h2: "files failing_request = Some ?fs" "?fs \<noteq> []"
    "format failing_request = Some ''mp4''" "allowedVideoFormats (toLowerCase ''mp4'') = Some ''video/mp4''"
    by (simp_all add: failing_request_def allowedVideoFormats_def toLowerCase_def lower_char_def)
  have e2: "3 < length ?fs" "on_write (failing_envs 3) = WriteOk"
    "on_ffmpeg (failing_envs 3) = Closed (Some 0) [] (Some ''mp4-bytes'')"
    and sf: "stat_fault (failing_envs 3) = Some ''EACCES: permission denied, stat''"
    by (simp_all add: failing_envs_def env_stat_fails_def)
  obtain out2 w2 where run2: "convert_video failing_request failing_envs failing_schedule empty_world = Some (out2, w2)"
    using failing_run by auto
  from exit_code_zero_needs_stat [OF h2 run2 e2]
  obtain rs2 where rs2: "out2 = Responded (batch_response rs2)"
    and fault: "\<forall>m. stat_fault (failing_envs 3) = Some m \<longrightarrow> rs2 ! 3 = failure_result (?fs ! 3) m"
    by (elim exE conjE)
  from fault sf have "rs2 ! 3 = failure_result (?fs ! 3) ''EACCES: permission denied, stat''"
    by blast
  then have "rs2 ! 3 = failure_result clip_b ''EACCES: permission denied, stat''"
    by simp
  with run2 rs2
  have "\<exists>rs w'. convert_video failing_request failing_envs failing_schedule empty_world =
        Some (Responded (batch_response rs), w') \<and>
      rs ! 3 = failure_result clip_b ''EACCES: permission denied, stat''"
    by (intro exI [of _ rs2] exI [of _ w2]) (simp only: simp_thms)
  with first e2 sf show ?thesis by (simp only: simp_thms)
qed




text \<open>
  Claim C9. The handler of the delivery route hands the disk back as it found it, whatever
  the request. So for the name of an artifact that is on disk, a name built from a UUID and
  an allowed format as the video route builds it, two fetches one after the other, each
  with \<^verbatim>\<open>fs.access\<close> and the transfer succeeding, both answer 200 with the same headers
  and the bytes of the file, and the file is still there afterwards.
\<close>

theorem download_is_repeatable:
  assumes "is_uuid u" "fmt = ''mp4'' \<or> fmt = ''webm''"
    and "d (path_join ''/tmp'' (u @ ''_output.'' @ fmt)) = Some content"
    and "access_fault ea = None" "on_download ea = Delivered"
    and "access_fault eb = None" "on_download eb = Delivered"
  shows "snd (download_video filename e d') = d' \<and>
    download_video (u @ ''_output.'' @ fmt) ea d =
      (Responded \<lparr>status = 200,
         headers = [(''Content-Type'', ''video/'' @ fmt),
                    (''Content-Disposition'', content_disposition (u @ ''_output.'' @ fmt))],
         body = File content\<rparr>, d) \<and>
    download_video (u @ ''_output.'' @ fmt) eb (snd (download_video (u @ ''_output.'' @ fmt) ea d)) =
      (Responded \<lparr>status = 200,
         headers = [(''Content-Type'', ''video/'' @ fmt),
                    (''Content-Disposition'', content_disposition (u @ ''_output.'' @ fmt))],
         body = File content\<rparr>, d)"
proof (intro conjI)
  show "snd (download_video filename e d') = d'"
    by (rule download_video_disk)
  show first: "download_video (u @ ''_output.'' @ fmt) ea d =
      (Responded \<lparr>status = 200,
         headers = [(''Content-Type'', ''video/'' @ fmt),
                    (''Content-Disposition'', content_disposition (u @ ''_output.'' @ fmt))],
         body = File content\<rparr>, d)"
    using assms(1-5) by (rule download_artifact)
  have "download_video (u @ ''_output.'' @ fmt) eb d =
      (Responded \<lparr>status = 200,
         headers = [(''Content-Type'', ''video/'' @ fmt),
                    (''Content-Disposition'', content_disposition (u @ ''_output.'' @ fmt))],
         body = File content\<rparr>, d)"
    using assms(1-3,6,7) by (rule download_artifact)
  then show "download_video (u @ ''_output.'' @ fmt) eb (snd (download_video (u @ ''_output.'' @ fmt) ea d)) =
      (Responded \<lparr>status = 200,
         headers = [(''Content-Type'', ''video/'' @ fmt),
                    (''Content-Disposition'', content_disposition (u @ ''_output.'' @ fmt))],
         body = File content\<rparr>, d)"
    by (simp only: download_video_disk)
qed

theorem download_is_repeatable_witness:
  "is_uuid ''123e4567-e89b-42d3-a456-426614174000'' \<and>
   ((\<lambda>p. None)(''/tmp/123e4567-e89b-42d3-a456-426614174000_output.webm'' \<mapsto> ''webm-bytes''))
      (path_join ''/tmp'' (''123e4567-e89b-42d3-a456-426614174000'' @ ''_output.'' @ ''webm'')) = Some ''webm-bytes'' \<and>
   access_fault \<lparr>directories = [], access_fault = None, on_download = Delivered\<rparr> = None \<and>
   on_download \<lparr>directories = [], access_fault = None, on_download = Delivered\<rparr> = Delivered \<and>
   download_video (''123e4567-e89b-42d3-a456-426614174000'' @ ''_output.'' @ ''webm'')
       \<lparr>directories = [], access_fault = None, on_download = Delivered\<rparr>
       ((\<lambda>p. None)(''/tmp/123e4567-e89b-42d3-a456-426614174000_output.webm'' \<mapsto> ''webm-bytes'')) =
     (Responded \<lparr>status = 200,
        headers = [(''Content-Type'', ''video/'' @ ''webm''),
                   (''Content-Disposition'',
                    content_disposition (''123e4567-e89b-42d3-a456-426614174000'' @ ''_output.'' @ ''webm''))],
        body = File ''webm-bytes''\<rparr>,
      (\<lambda>p. None)(''/tmp/123e4567-e89b-42d3-a456-426614174000_output.webm'' \<mapsto> ''webm-bytes'')) \<and>
   download_video (''123e4567-e89b-42d3-a456-426614174000'' @ ''_output.'' @ ''webm'')
       \<lparr>directories = [], access_fault = None, on_download = Delivered\<rparr>
       (snd (download_video (''123e4567-e89b-42d3-a456-426614174000'' @ ''_output.'' @ ''webm'')
          \<lparr>directories = [], access_fault = None, on_download = Delivered\<rparr>
          ((\<lambda>p. None)(''/tmp/123e4567-e89b-42d3-a456-426614174000_output.webm'' \<mapsto> ''webm-bytes'')))) =
     (Responded \<lparr>status = 200,
        headers = [(''Content-Type'', ''video/'' @ ''webm''),
                   (''Content-Disposition'',
                    content_disposition (''123e4567-e89b-42d3-a456-426614174000'' @ ''_output.'' @ ''webm''))],
        body = File ''webm-bytes''\<rparr>,
      (\<lambda>p. None)(''/tmp/123e4567-e89b-42d3-a456-426614174000_output.webm'' \<mapsto> ''webm-bytes''))"
proof -
  let ?d = "(\<lambda>p. None)(''/tmp/123e4567-e89b-42d3-a456-426614174000_output.webm'' \<mapsto> ''webm-bytes'')"
  let ?e = "\<lparr>directories = [], access_fault = None, on_download = Delivered\<rparr>"
  have f: "''webm'' = ''mp4'' \<or> ''webm'' = ''webm''" by simp
  have p: "?d (path_join ''/tmp'' (''123e4567-e89b-42d3-a456-426614174000'' @ ''_output.'' @ ''webm'')) = Some ''webm-bytes''"
    by (simp add: example_joined)
  have e: "access_fault ?e = None" "on_download ?e = Delivered" by simp_all
  note t = download_is_repeatable
    [where u = "''123e4567-e89b-42d3-a456-426614174000''" and fmt = "''webm''" and d = ?d
       and content = "''webm-bytes''" and ea = ?e and eb = ?e and filename = "''x''" and e = ?e and d' = ?d,
     OF example_uuid f p e e]
  show ?thesis
    by (intro conjI)
       (rule example_uuid p e t [THEN conjunct2, THEN conjunct1] t [THEN conjunct2, THEN conjunct2])+
qed

text \<open>
  Claim C10. A format whose lower-case form is \<^verbatim>\<open>mp4\<close> or \<^verbatim>\<open>webm\<close> passes
  validation, which hands on the MIME type looked up for the lower-case form; every job
  started for the batch has an output path that ends in a dot and the lower-case form;
  and whenever the handler answers, it answers 200, and each entry that has a size reports
  that MIME type.
\<close>

theorem format_is_matched_in_lower_case:
  assumes "files req = Some fs" "fs \<noteq> []" "format req = Some fmt"
    and "toLowerCase fmt = ''mp4'' \<or> toLowerCase fmt = ''webm''"
  shows "\<exists>mime. allowedVideoFormats (toLowerCase fmt) = Some mime \<and>
    validate req = Inr (fs, fmt, mime) \<and>
    (\<forall>j \<in> set (fst (start_jobs fmt envs 0 fs w)).
       suffix (''.'' @ toLowerCase fmt) (outputFilePath j)) \<and>
    (\<forall>out w'. convert_video req envs sched w = Some (out, w') \<longrightarrow>
       (\<exists>rs. out = Responded (batch_response rs) \<and> status (batch_response rs) = 200 \<and>
          length rs = length fs \<and>
          (\<forall>i < length fs. field (rs ! i) ''size'' \<noteq> None \<longrightarrow>
             field (rs ! i) ''mimeType'' = Some (JString mime))))"
proof -
  from assms(4) obtain mime where mime: "allowedVideoFormats (toLowerCase fmt) = Some mime"
    by (auto simp: allowed_iff)
  with assms have v: "validate req = Inr (fs, fmt, mime)"
    by (simp add: validate_accepts)
  have paths: "\<forall>j \<in> set (fst (start_jobs fmt envs 0 fs w)).
       suffix (''.'' @ toLowerCase fmt) (outputFilePath j)"
  proof
    fix j assume "j \<in> set (fst (start_jobs fmt envs 0 fs w))"
    from start_jobs_output_path [OF this]
    obtain i where "outputFilePath j = output_path fmt (envs (0 + i))"
      by (elim exE conjE)
    with output_path_suffix [OF allowed_slash_free [OF mime], of "envs (0 + i)"]
    show "suffix (''.'' @ toLowerCase fmt) (outputFilePath j)"
      by simp
  qed
  have resp: "\<forall>out w'. convert_video req envs sched w = Some (out, w') \<longrightarrow>
       (\<exists>rs. out = Responded (batch_response rs) \<and> status (batch_response rs) = 200 \<and>
          length rs = length fs \<and>
          (\<forall>i < length fs. field (rs ! i) ''size'' \<noteq> None \<longrightarrow>
             field (rs ! i) ''mimeType'' = Some (JString mime)))"
  proof (intro allI impI)
    fix out w' assume run: "convert_video req envs sched w = Some (out, w')"
    from convert_video_responded [OF v run]
    obtain rs where out: "out = Responded (batch_response rs)" and len: "length rs = length fs"
      and each: "\<forall>i < length fs.
         result_ok req fmt mime (fs ! i) (envs i) (rs ! i) \<and>
         calls_of i w' = calls_of i w @ all_calls fmt (fs ! i) (envs i) \<and>
         (fresh_uuids envs (length fs) \<longrightarrow>
            rs ! i = job_result req fmt mime (fs ! i) (envs i) (disk w) \<and>
            disk w' (output_path fmt (envs i)) = output_kept fmt (envs i) (disk w) \<and>
            disk w' (input_path (fs ! i) (envs i)) = input_unlinked (fs ! i) (envs i) (disk w))"
      by (elim exE conjE)
    have "\<forall>i < length fs. field (rs ! i) ''size'' \<noteq> None \<longrightarrow>
             field (rs ! i) ''mimeType'' = Some (JString mime)"
    proof (intro allI impI)
      fix i assume "i < length fs" and sz: "field (rs ! i) ''size'' \<noteq> None"
      with each have "result_ok req fmt mime (fs ! i) (envs i) (rs ! i)" by simp
      from result_ok_mimeType [OF this] sz
      show "field (rs ! i) ''mimeType'' = Some (JString mime)" by simp
    qed
    moreover have "status (batch_response rs) = 200" by (simp add: batch_response_def)
    ultimately show "\<exists>rs. out = Responded (batch_response rs) \<and> status (batch_response rs) = 200 \<and>
          length rs = length fs \<and>
          (\<forall>i < length fs. field (rs ! i) ''size'' \<noteq> None \<longrightarrow>
             field (rs ! i) ''mimeType'' = Some (JString mime))"
      using out len by (intro exI [of _ rs] conjI)
  qed
  show ?thesis
    by (rule exI [of _ mime], intro conjI) (rule mime v paths resp)+
qed

theorem format_is_matched_in_lower_case_witness:
  "files (single_request\<lparr>format := Some ''MP4''\<rparr>) = Some [clip_a] \<and> [clip_a] \<noteq> [] \<and>
   format (single_request\<lparr>format := Some ''MP4''\<rparr>) = Some ''MP4'' \<and>
   toLowerCase ''MP4'' = ''mp4'' \<and>
   validate (single_request\<lparr>format := Some ''MP4''\<rparr>) = Inr ([clip_a], ''MP4'', ''video/mp4'') \<and>
   suffix ''.mp4'' (outputFilePath (hd (fst (start_jobs ''MP4'' example_envs 0 [clip_a] empty_world)))) \<and>
   (\<exists>rs w'. convert_video (single_request\<lparr>format := Some ''MP4''\<rparr>) example_envs [0, 0, 0, 0] empty_world =
        Some (Responded (batch_response rs), w') \<and>
      status (batch_response rs) = 200 \<and>
      field (rs ! 0) ''mimeType'' = Some (JString ''video/mp4''))"
proof -
  let ?req = "single_request\<lparr>format := Some ''MP4''\<rparr>"
  have lc: "toLowerCase ''MP4'' = ''mp4''"
    by (simp add: toLowerCase_def lower_char_def)
  have h: "files ?req = Some [clip_a]" "[clip_a] \<noteq> []" "format ?req = Some ''MP4''"
    "toLowerCase ''MP4'' = ''mp4'' \<or> toLowerCase ''MP4'' = ''webm''"
    by (simp_all add: single_request_def lc)
  obtain out w' where run: "convert_video ?req example_envs [0, 0, 0, 0] empty_world = Some (out, w')"
    and out: "out = Responded (batch_response
       [success_result ?req clip_a
          ''/tmp/123e4567-e89b-42d3-a456-426614174000_output.mp4'' ''video/mp4'' (length ''webm-bytes'')])"
    using upper_case_run by auto
  from format_is_matched_in_lower_case [OF h, of example_envs empty_world "[0, 0, 0, 0]"]
  obtain mime where mime: "allowedVideoFormats (toLowerCase ''MP4'') = Some mime"
    and v: "validate ?req = Inr ([clip_a], ''MP4'', mime)"
    and paths: "\<forall>j \<in> set (fst (start_jobs ''MP4'' example_envs 0 [clip_a] empty_world)).
       suffix (''.'' @ toLowerCase ''MP4'') (outputFilePath j)"
    and resp: "\<forall>out w'. convert_video ?req example_envs [0, 0, 0, 0] empty_world = Some (out, w') \<longrightarrow>
       (\<exists>rs. out = Responded (batch_response rs) \<and> status (batch_response rs) = 200 \<and>
          length rs = length [clip_a] \<and>
          (\<forall>i < length [clip_a]. field (rs ! i) ''size'' \<noteq> None \<longrightarrow>
             field (rs ! i) ''mimeType'' = Some (JString mime)))"
    by (elim exE conjE)
  from mime have m: "mime = ''video/mp4''"
    by (simp add: lc allowedVideoFormats_def)
  have "hd (fst (start_jobs ''MP4'' example_envs 0 [clip_a] empty_world))
      \<in> set (fst (start_jobs ''MP4'' example_envs 0 [clip_a] empty_world))"
    by (simp add: start_job_eq)
  with paths have p: "suffix ''.mp4'' (outputFilePath (hd (fst (start_jobs ''MP4'' example_envs 0 [clip_a] empty_world))))"
    using lc by (auto simp del: start_jobs.simps)
  from resp run obtain rs where rs: "out = Responded (batch_response rs)" "status (batch_response rs) = 200"
    and mt: "\<forall>i < length [clip_a]. field (rs ! i) ''size'' \<noteq> None \<longrightarrow>
             field (rs ! i) ''mimeType'' = Some (JString mime)"
    by blast
  from out rs(1) have "rs = [success_result ?req clip_a
          ''/tmp/123e4567-e89b-42d3-a456-426614174000_output.mp4'' ''video/mp4'' (length ''webm-bytes'')]"
    by (simp add: batch_response_inject)
  then have "field (rs ! 0) ''size'' \<noteq> None"
    by (simp add: fields_success)
  with mt m have f: "field (rs ! 0) ''mimeType'' = Some (JString ''video/mp4'')"
    by simp
  from run rs f
  have "\<exists>rs w'. convert_video ?req example_envs [0, 0, 0, 0] empty_world =
        Some (Responded (batch_response rs), w') \<and>
      status (batch_response rs) = 200 \<and>
      field (rs ! 0) ''mimeType'' = Some (JString ''video/mp4'')"
    by (intro exI [of _ rs] exI [of _ w']) (simp only: simp_thms)
  with h(1-3) lc v m p show ?thesis by (simp only: simp_thms)
qed

end
